theory Spec2Isabelle
  imports Main "HOL-Library.AList" "HOL-Library.Multiset" "HOL-Library.Product_Lexorder"
begin

section \<open>Python primitives used by the TODO service\<close>

text \<open>
  Strings are \<open>string\<close>; every \<open>char\<close> stands for one code point below 256, which is
  what \<open>len\<close> counts. \<open>isspace\<close> is Python's whitespace table restricted to that range:
  U+0009..U+000D, U+001C..U+0020, U+0085 and U+00A0.
\<close>

definition isspace :: "char \<Rightarrow> bool" where
  "isspace c =
     (let n = (of_char c :: nat)
      in (9 \<le> n \<and> n \<le> 13) \<or> (28 \<le> n \<and> n \<le> 32) \<or> n = 133 \<or> n = 160)"

definition lstrip :: "string \<Rightarrow> string" where
  "lstrip v = dropWhile isspace v"

definition rstrip :: "string \<Rightarrow> string" where
  "rstrip v = rev (dropWhile isspace (rev v))"

text \<open>\<open>v.strip()\<close>: leading and trailing whitespace removed.\<close>

definition strip :: "string \<Rightarrow> string" where
  "strip v = rstrip (lstrip v)"

text \<open>\<open>str(i)\<close> for an integer: its decimal numeral.\<close>

definition digit_char :: "nat \<Rightarrow> char" where
  "digit_char n = ''0123456789'' ! (n mod 10)"

function str_nat :: "nat \<Rightarrow> string" where
  "str_nat n = (if n < 10 then [digit_char n] else str_nat (n div 10) @ [digit_char (n mod 10)])"
  by pat_completeness auto
termination
  by (relation "measure (\<lambda>n. n)") auto

declare str_nat.simps [simp del]

definition str :: "int \<Rightarrow> string" where
  "str i = (if i < 0 then CHR ''-'' # str_nat (nat (- i)) else str_nat (nat i))"

text \<open>
  A timestamp (\<open>datetime.now(timezone.utc)\<close>) is the number of microseconds since the
  epoch. The clock and the random source are inputs of the operations that read them.
\<close>

type_synonym datetime = int

text \<open>
  A \<open>dict\<close> keeps its keys in insertion order: it is an association list with distinct
  keys. \<open>d[k] = v\<close> is \<open>AList.update k v d\<close> (an existing key keeps its place, a new key
  goes to the end), \<open>del d[k]\<close> is \<open>AList.delete k d\<close>, \<open>d.get(k)\<close> is \<open>map_of d k\<close>,
  \<open>d.values()\<close> is \<open>map snd d\<close> and \<open>len(d)\<close> is \<open>length d\<close>.
\<close>


section \<open>models.py\<close>

datatype TodoStatus = PENDING | IN_PROGRESS | COMPLETED

fun TodoStatus_value :: "TodoStatus \<Rightarrow> string" where
  "TodoStatus_value PENDING = ''pending''"
| "TodoStatus_value IN_PROGRESS = ''in_progress''"
| "TodoStatus_value COMPLETED = ''completed''"

record TodoBase =
  title :: string
  description :: "string option"
  status :: TodoStatus
  priority :: int

type_synonym TodoCreate = TodoBase

record TodoResponse = TodoBase +
  id_field :: string
  created_at :: datetime
  updated_at :: datetime

text \<open>
  \<open>TodoUpdate\<close>: every field is \<open>Optional\<close> with default \<open>None\<close>;
  \<open>model_fields_set\<close> holds the names of the fields the request supplied.
\<close>

record TodoUpdate =
  upd_title :: "string option"
  upd_description :: "string option"
  upd_status :: "TodoStatus option"
  upd_priority :: "int option"
  model_fields_set :: "string list"

text \<open>
  A member of a JSON request body is absent, \<open>null\<close>, or a value of the field's type.
\<close>

datatype 'a field = Unset | Null | Val 'a

record request_body =
  body_title :: "string field"
  body_description :: "string field"
  body_status :: "TodoStatus field"
  body_priority :: "int field"

subsection \<open>Validation\<close>

datatype error_type =
    Missing | StringType | EnumError | IntType
  | StringTooShort | StringTooLong | ValueError
  | GreaterThanEqual | LessThanEqual

type_synonym verror = "string \<times> error_type"

text \<open>
  Building a model either returns it or raises \<open>ValidationError\<close> with the list of the
  violated constraints: \<open>Inr\<close> is the model, \<open>Inl\<close> the errors.
\<close>

type_synonym 'a validated = "verror list + 'a"

text \<open>The fields of a model are validated one by one and all errors are collected.\<close>

fun ap :: "('a \<Rightarrow> 'b) validated \<Rightarrow> 'a validated \<Rightarrow> 'b validated" where
  "ap (Inr f) (Inr x) = Inr (f x)"
| "ap (Inr f) (Inl e) = Inl e"
| "ap (Inl e) (Inr x) = Inl e"
| "ap (Inl e) (Inl e') = Inl (e @ e')"

text \<open>\<open>Field(min_length=..., max_length=...)\<close> and \<open>Field(ge=..., le=...)\<close>.\<close>

definition str_constraints :: "string \<Rightarrow> nat option \<Rightarrow> nat option \<Rightarrow> string \<Rightarrow> string validated" where
  "str_constraints loc min_length max_length v =
     (if (case min_length of None \<Rightarrow> False | Some n \<Rightarrow> length v < n) then Inl [(loc, StringTooShort)]
      else if (case max_length of None \<Rightarrow> False | Some n \<Rightarrow> n < length v) then Inl [(loc, StringTooLong)]
      else Inr v)"

definition int_constraints :: "string \<Rightarrow> int \<Rightarrow> int \<Rightarrow> int \<Rightarrow> int validated" where
  "int_constraints loc ge le v =
     (if v < ge then Inl [(loc, GreaterThanEqual)]
      else if le < v then Inl [(loc, LessThanEqual)]
      else Inr v)"

text \<open>
  \<open>TodoBase.title_must_not_be_empty\<close>, an after-validator: it sees the value once the
  length constraints have passed.
\<close>

definition TodoBase_title_must_not_be_empty :: "string \<Rightarrow> string validated" where
  "TodoBase_title_must_not_be_empty v =
     (if v = [] \<or> strip v = [] then Inl [(''title'', ValueError)] else Inr (strip v))"

definition TodoBase_title :: "string field \<Rightarrow> string validated" where
  "TodoBase_title f =
     (case f of
        Unset \<Rightarrow> Inl [(''title'', Missing)]
      | Null \<Rightarrow> Inl [(''title'', StringType)]
      | Val v \<Rightarrow>
          (case str_constraints ''title'' (Some 1) (Some 200) v of
             Inl e \<Rightarrow> Inl e
           | Inr v' \<Rightarrow> TodoBase_title_must_not_be_empty v'))"

definition TodoBase_description :: "string field \<Rightarrow> string option validated" where
  "TodoBase_description f =
     (case f of
        Unset \<Rightarrow> Inr None
      | Null \<Rightarrow> Inr None
      | Val v \<Rightarrow>
          (case str_constraints ''description'' None (Some 1000) v of
             Inl e \<Rightarrow> Inl e
           | Inr v' \<Rightarrow> Inr (Some v')))"

definition TodoBase_status :: "TodoStatus field \<Rightarrow> TodoStatus validated" where
  "TodoBase_status f =
     (case f of
        Unset \<Rightarrow> Inr PENDING
      | Null \<Rightarrow> Inl [(''status'', EnumError)]
      | Val v \<Rightarrow> Inr v)"

definition TodoBase_priority :: "int field \<Rightarrow> int validated" where
  "TodoBase_priority f =
     (case f of
        Unset \<Rightarrow> Inr 1
      | Null \<Rightarrow> Inl [(''priority'', IntType)]
      | Val v \<Rightarrow> int_constraints ''priority'' 1 5 v)"

text \<open>\<open>TodoCreate(**body)\<close>.\<close>

definition TodoCreate_validate :: "request_body \<Rightarrow> TodoCreate validated" where
  "TodoCreate_validate body =
     ap (ap (ap (ap (Inr (\<lambda>t d s p. \<lparr>title = t, description = d, status = s, priority = p\<rparr>))
        (TodoBase_title (body_title body)))
        (TodoBase_description (body_description body)))
        (TodoBase_status (body_status body)))
        (TodoBase_priority (body_priority body))"

text \<open>
  \<open>TodoResponse(**todo_data)\<close>: the record's own fields go through the validation of
  \<open>TodoBase\<close> again.
\<close>

definition TodoResponse_validate :: "TodoResponse \<Rightarrow> TodoResponse validated" where
  "TodoResponse_validate todo_data =
     ap (ap (ap (ap (Inr (\<lambda>t d s p.
          \<lparr>title = t, description = d, status = s, priority = p,
           id_field = id_field todo_data, created_at = created_at todo_data,
           updated_at = updated_at todo_data\<rparr>))
        (TodoBase_title (Val (title todo_data))))
        (TodoBase_description (case description todo_data of None \<Rightarrow> Null | Some v \<Rightarrow> Val v)))
        (TodoBase_status (Val (status todo_data))))
        (TodoBase_priority (Val (priority todo_data)))"

text \<open>\<open>TodoUpdate.title_must_not_be_empty\<close>.\<close>

definition TodoUpdate_title_must_not_be_empty :: "string option \<Rightarrow> string option validated" where
  "TodoUpdate_title_must_not_be_empty v =
     (case v of
        None \<Rightarrow> Inr None
      | Some s \<Rightarrow>
          if s = [] \<or> strip s = [] then Inl [(''title'', ValueError)]
          else Inr (if s \<noteq> [] then Some (strip s) else Some s))"

definition TodoUpdate_title :: "string field \<Rightarrow> string option validated" where
  "TodoUpdate_title f =
     (case f of
        Unset \<Rightarrow> Inr None
      | Null \<Rightarrow> TodoUpdate_title_must_not_be_empty None
      | Val v \<Rightarrow>
          (case str_constraints ''title'' (Some 1) (Some 200) v of
             Inl e \<Rightarrow> Inl e
           | Inr v' \<Rightarrow> TodoUpdate_title_must_not_be_empty (Some v')))"

definition TodoUpdate_description :: "string field \<Rightarrow> string option validated" where
  "TodoUpdate_description f =
     (case f of
        Unset \<Rightarrow> Inr None
      | Null \<Rightarrow> Inr None
      | Val v \<Rightarrow>
          (case str_constraints ''description'' None (Some 1000) v of
             Inl e \<Rightarrow> Inl e
           | Inr v' \<Rightarrow> Inr (Some v')))"

definition TodoUpdate_status :: "TodoStatus field \<Rightarrow> TodoStatus option validated" where
  "TodoUpdate_status f =
     (case f of Unset \<Rightarrow> Inr None | Null \<Rightarrow> Inr None | Val v \<Rightarrow> Inr (Some v))"

definition TodoUpdate_priority :: "int field \<Rightarrow> int option validated" where
  "TodoUpdate_priority f =
     (case f of
        Unset \<Rightarrow> Inr None
      | Null \<Rightarrow> Inr None
      | Val v \<Rightarrow>
          (case int_constraints ''priority'' 1 5 v of
             Inl e \<Rightarrow> Inl e
           | Inr v' \<Rightarrow> Inr (Some v')))"

definition supplied :: "string \<Rightarrow> 'a field \<Rightarrow> string list" where
  "supplied name f = (case f of Unset \<Rightarrow> [] | Null \<Rightarrow> [name] | Val v \<Rightarrow> [name])"

text \<open>\<open>TodoUpdate(**body)\<close>.\<close>

definition TodoUpdate_validate :: "request_body \<Rightarrow> TodoUpdate validated" where
  "TodoUpdate_validate body =
     ap (ap (ap (ap (Inr (\<lambda>t d s p.
          \<lparr>upd_title = t, upd_description = d, upd_status = s, upd_priority = p,
           model_fields_set =
             supplied ''title'' (body_title body) @
             supplied ''description'' (body_description body) @
             supplied ''status'' (body_status body) @
             supplied ''priority'' (body_priority body)\<rparr>))
        (TodoUpdate_title (body_title body)))
        (TodoUpdate_description (body_description body)))
        (TodoUpdate_status (body_status body)))
        (TodoUpdate_priority (body_priority body))"

text \<open>
  \<open>todo_update.model_dump(exclude_unset=True)\<close>: the fields of \<open>model_fields_set\<close> with
  their values, in declaration order.
\<close>

datatype pyval = PyNone | PyStr string | PyStatus TodoStatus | PyInt int

definition dump_field :: "string list \<Rightarrow> string \<Rightarrow> 'a option \<Rightarrow> ('a \<Rightarrow> pyval) \<Rightarrow> (string \<times> pyval) list" where
  "dump_field fields_set name v conv =
     (if name \<in> set fields_set
      then [(name, case v of None \<Rightarrow> PyNone | Some x \<Rightarrow> conv x)]
      else [])"

definition model_dump_exclude_unset :: "TodoUpdate \<Rightarrow> (string \<times> pyval) list" where
  "model_dump_exclude_unset u =
     dump_field (model_fields_set u) ''title'' (upd_title u) PyStr @
     dump_field (model_fields_set u) ''description'' (upd_description u) PyStr @
     dump_field (model_fields_set u) ''status'' (upd_status u) PyStatus @
     dump_field (model_fields_set u) ''priority'' (upd_priority u) PyInt"


section \<open>database.py\<close>

text \<open>
  A stored \<open>todo_data\<close> dictionary has the seven keys of \<open>TodoResponse\<close>; \<open>self._todos\<close>
  maps identifiers to such dictionaries.
\<close>

type_synonym todo_data = TodoResponse

type_synonym TodoDatabase = "(string \<times> todo_data) list"

definition init :: TodoDatabase where
  "init = []"

text \<open>\<open>todo_data[field] = value\<close> for the fields an update can name.\<close>

definition setitem :: "todo_data \<Rightarrow> string \<Rightarrow> pyval \<Rightarrow> todo_data" where
  "setitem todo_data fld v =
     (case v of
        PyStr s \<Rightarrow>
          if fld = ''title'' then todo_data\<lparr>title := s\<rparr>
          else if fld = ''description'' then todo_data\<lparr>description := Some s\<rparr>
          else todo_data
      | PyStatus s \<Rightarrow> if fld = ''status'' then todo_data\<lparr>status := s\<rparr> else todo_data
      | PyInt i \<Rightarrow> if fld = ''priority'' then todo_data\<lparr>priority := i\<rparr> else todo_data
      | PyNone \<Rightarrow> if fld = ''description'' then todo_data\<lparr>description := None\<rparr> else todo_data)"

text \<open>\<open>_generate_id\<close>; the argument is \<open>uuid.uuid4().hex\<close>.\<close>

definition generate_id :: "string \<Rightarrow> string" where
  "generate_id uuid4_hex = ''todo-'' @ take 8 uuid4_hex"

text \<open>
  \<open>create\<close>. \<open>uuid4_hex\<close> and \<open>now\<close> are what \<open>uuid.uuid4().hex\<close> and
  \<open>datetime.now(timezone.utc)\<close> return. The record is stored before the response is
  built, so the new store is returned whether or not that raises.
\<close>

definition create :: "TodoDatabase \<Rightarrow> string \<Rightarrow> datetime \<Rightarrow> TodoCreate \<Rightarrow> TodoDatabase \<times> TodoResponse validated" where
  "create todos uuid4_hex now todo =
     (let todo_id = generate_id uuid4_hex;
          todo_data =
            \<lparr>title = title todo, description = description todo, status = status todo,
             priority = priority todo, id_field = todo_id, created_at = now, updated_at = now\<rparr>
      in (AList.update todo_id todo_data todos, TodoResponse_validate todo_data))"

text \<open>
  \<open>get\<close>. A stored dictionary is never empty, so the truth test on \<open>todo_data\<close> fails
  exactly when the key is missing.
\<close>

definition get :: "TodoDatabase \<Rightarrow> string \<Rightarrow> TodoResponse option validated" where
  "get todos todo_id =
     (case map_of todos todo_id of
        None \<Rightarrow> Inr None
      | Some todo_data \<Rightarrow>
          (case TodoResponse_validate todo_data of Inl e \<Rightarrow> Inl e | Inr r \<Rightarrow> Inr (Some r)))"

text \<open>The list comprehension \<open>[TodoResponse(**todo) for todo in todos]\<close>.\<close>

fun responses :: "todo_data list \<Rightarrow> TodoResponse list validated" where
  "responses [] = Inr []"
| "responses (todo # todos) =
     (case TodoResponse_validate todo of
        Inl e \<Rightarrow> Inl e
      | Inr r \<Rightarrow> (case responses todos of Inl e \<Rightarrow> Inl e | Inr rs \<Rightarrow> Inr (r # rs)))"

text \<open>
  \<open>get_all\<close>. The tests \<open>if status:\<close> and \<open>if priority:\<close> are truth tests: a status is
  true when its string value is not empty, a priority when it is not \<open>0\<close>.
  \<open>list.sort\<close> is stable, as \<open>sort_key\<close> is.
\<close>

definition get_all :: "TodoDatabase \<Rightarrow> TodoStatus option \<Rightarrow> int option \<Rightarrow> TodoResponse list validated" where
  "get_all todos_dict status_filter priority_filter =
     (let todos = map snd todos_dict;
          todos = (case status_filter of
                     None \<Rightarrow> todos
                   | Some s \<Rightarrow> if TodoStatus_value s \<noteq> [] then filter (\<lambda>t. status t = s) todos else todos);
          todos = (case priority_filter of
                     None \<Rightarrow> todos
                   | Some p \<Rightarrow> if p \<noteq> 0 then filter (\<lambda>t. priority t = p) todos else todos);
          todos = sort_key (\<lambda>x. (- priority x, created_at x)) todos
      in responses todos)"

text \<open>
  \<open>update\<close>. \<open>todo_data\<close> is the stored dictionary itself: the loop and the assignment
  of \<open>updated_at\<close> change the store in place, and the record keeps its position.
\<close>

definition update :: "TodoDatabase \<Rightarrow> string \<Rightarrow> TodoUpdate \<Rightarrow> datetime \<Rightarrow> TodoDatabase \<times> TodoResponse option validated" where
  "update todos todo_id todo_update now =
     (case map_of todos todo_id of
        None \<Rightarrow> (todos, Inr None)
      | Some todo_data \<Rightarrow>
          (let update_data = model_dump_exclude_unset todo_update;
               todo_data = fold (\<lambda>(fld, v) d. if v \<noteq> PyNone then setitem d fld v else d)
                             update_data todo_data;
               todo_data = todo_data\<lparr>updated_at := now\<rparr>
           in (AList.update todo_id todo_data todos,
               case TodoResponse_validate todo_data of Inl e \<Rightarrow> Inl e | Inr r \<Rightarrow> Inr (Some r))))"

definition delete :: "TodoDatabase \<Rightarrow> string \<Rightarrow> TodoDatabase \<times> bool" where
  "delete todos todo_id =
     (if map_of todos todo_id \<noteq> None then (AList.delete todo_id todos, True)
      else (todos, False))"

definition count :: "TodoDatabase \<Rightarrow> nat" where
  "count todos = length todos"



section \<open>main.py\<close>

record stats =
  total :: nat
  by_status :: "(string \<times> nat) list"
  by_priority :: "(string \<times> nat) list"

datatype body =
    Todo TodoResponse
  | Todos "TodoResponse list"
  | Detail string
  | Failure string "verror list"
  | ValidationErrors "verror list"
  | Stats stats
  | Health string nat
  | NoBody

datatype response = Response (status_code: nat) (content: body)

definition not_found_detail :: "string \<Rightarrow> string" where
  "not_found_detail todo_id = ''TODO item with id '' @ [CHR 0x27] @ todo_id @ [CHR 0x27] @ '' not found''"

definition health_check :: "TodoDatabase \<Rightarrow> response" where
  "health_check db = Response 200 (Health ''healthy'' (count db))"

text \<open>
  The handlers receive request models that have already been validated. An exception
  that a handler does not catch is answered with status 500.
\<close>

definition create_todo :: "TodoDatabase \<Rightarrow> string \<Rightarrow> datetime \<Rightarrow> TodoCreate \<Rightarrow> response \<times> TodoDatabase" where
  "create_todo db uuid4_hex now todo =
     (case create db uuid4_hex now todo of
        (db', Inr new_todo) \<Rightarrow> (Response 201 (Todo new_todo), db')
      | (db', Inl e) \<Rightarrow> (Response 500 (Failure ''Failed to create TODO: '' e), db'))"

definition get_todos :: "TodoDatabase \<Rightarrow> TodoStatus option \<Rightarrow> int option \<Rightarrow> response" where
  "get_todos db status_filter priority_filter =
     (case get_all db status_filter priority_filter of
        Inr todos \<Rightarrow> Response 200 (Todos todos)
      | Inl e \<Rightarrow> Response 500 (Failure ''Failed to retrieve TODOs: '' e))"

definition get_todo :: "TodoDatabase \<Rightarrow> string \<Rightarrow> response" where
  "get_todo db todo_id =
     (case get db todo_id of
        Inl e \<Rightarrow> Response 500 (Failure ''Internal Server Error'' e)
      | Inr None \<Rightarrow> Response 404 (Detail (not_found_detail todo_id))
      | Inr (Some todo) \<Rightarrow> Response 200 (Todo todo))"

definition update_todo :: "TodoDatabase \<Rightarrow> string \<Rightarrow> TodoUpdate \<Rightarrow> datetime \<Rightarrow> response \<times> TodoDatabase" where
  "update_todo db todo_id todo_update now =
     (case update db todo_id todo_update now of
        (db', Inl e) \<Rightarrow> (Response 500 (Failure ''Internal Server Error'' e), db')
      | (db', Inr None) \<Rightarrow> (Response 404 (Detail (not_found_detail todo_id)), db')
      | (db', Inr (Some updated_todo)) \<Rightarrow> (Response 200 (Todo updated_todo), db'))"

definition delete_todo :: "TodoDatabase \<Rightarrow> string \<Rightarrow> response \<times> TodoDatabase" where
  "delete_todo db todo_id =
     (case delete db todo_id of
        (db', True) \<Rightarrow> (Response 204 NoBody, db')
      | (db', False) \<Rightarrow> (Response 404 (Detail (not_found_detail todo_id)), db'))"

definition get_stats :: "TodoDatabase \<Rightarrow> response" where
  "get_stats db =
     (case get_all db None None of
        Inl e \<Rightarrow> Response 500 (Failure ''Internal Server Error'' e)
      | Inr all_todos \<Rightarrow>
          Response 200 (Stats
            \<lparr>total = length all_todos,
             by_status =
               [(''pending'', length (filter (\<lambda>t. status t = PENDING) all_todos)),
                (''in_progress'', length (filter (\<lambda>t. status t = IN_PROGRESS) all_todos)),
                (''completed'', length (filter (\<lambda>t. status t = COMPLETED) all_todos))],
             by_priority =
               fold (\<lambda>p d. AList.update (str p) (length (filter (\<lambda>t. priority t = p) all_todos)) d)
                 [1, 2, 3, 4, 5] []\<rparr>))"

subsection \<open>Requests\<close>

text \<open>
  A request reaches its handler once its body and query parameters have passed
  validation; otherwise it is answered with status 422 and the handler does not run.
  \<open>uuid4_hex\<close> and \<open>clock\<close> are what the random source and the clock return while the
  request is handled.
\<close>

datatype request =
    POST_todos request_body
  | GET_todos "TodoStatus option" "int option"
  | GET_todo string
  | PUT_todo string request_body
  | DELETE_todo string
  | GET_stats_summary
  | GET_health

record environment =
  uuid4_hex :: string
  clock :: datetime

definition priority_query :: "int option \<Rightarrow> int option validated" where
  "priority_query q =
     (case q of
        None \<Rightarrow> Inr None
      | Some p \<Rightarrow> (case int_constraints ''priority'' 1 5 p of Inl e \<Rightarrow> Inl e | Inr p' \<Rightarrow> Inr (Some p')))"

fun handle :: "request \<Rightarrow> environment \<Rightarrow> TodoDatabase \<Rightarrow> response \<times> TodoDatabase" where
  "handle (POST_todos b) env db =
     (case TodoCreate_validate b of
        Inl e \<Rightarrow> (Response 422 (ValidationErrors e), db)
      | Inr todo \<Rightarrow> create_todo db (uuid4_hex env) (clock env) todo)"
| "handle (GET_todos status_filter priority_filter) env db =
     (case priority_query priority_filter of
        Inl e \<Rightarrow> (Response 422 (ValidationErrors e), db)
      | Inr p \<Rightarrow> (get_todos db status_filter p, db))"
| "handle (GET_todo todo_id) env db = (get_todo db todo_id, db)"
| "handle (PUT_todo todo_id b) env db =
     (case TodoUpdate_validate b of
        Inl e \<Rightarrow> (Response 422 (ValidationErrors e), db)
      | Inr todo_update \<Rightarrow> update_todo db todo_id todo_update (clock env))"
| "handle (DELETE_todo todo_id) env db = delete_todo db todo_id"
| "handle GET_stats_summary env db = (get_stats db, db)"
| "handle GET_health env db = (health_check db, db)"

text \<open>The store after a sequence of requests.\<close>

fun run :: "(request \<times> environment) list \<Rightarrow> TodoDatabase \<Rightarrow> TodoDatabase" where
  "run [] db = db"
| "run ((req, env) # rest) db = run rest (snd (handle req env db))"


section \<open>Well-formed records and stores\<close>

text \<open>
  What validation establishes for the fields of a record: the title is stripped, not
  empty and at most 200 characters long, a description has at most 1000 characters and
  the priority lies between 1 and 5.
\<close>

definition valid_title :: "string \<Rightarrow> bool" where
  "valid_title t = (t \<noteq> [] \<and> length t \<le> 200 \<and> strip t = t)"

definition valid_description :: "string option \<Rightarrow> bool" where
  "valid_description d = (case d of None \<Rightarrow> True | Some s \<Rightarrow> length s \<le> 1000)"

definition valid_fields :: "'a TodoBase_scheme \<Rightarrow> bool" where
  "valid_fields d =
     (valid_title (title d) \<and> valid_description (description d) \<and>
      1 \<le> priority d \<and> priority d \<le> 5)"

definition valid_update :: "TodoUpdate \<Rightarrow> bool" where
  "valid_update u =
     ((case upd_title u of None \<Rightarrow> True | Some t \<Rightarrow> valid_title t) \<and>
      valid_description (upd_description u) \<and>
      (case upd_priority u of None \<Rightarrow> True | Some p \<Rightarrow> 1 \<le> p \<and> p \<le> 5))"

text \<open>
  The invariant of \<open>self._todos\<close>: keys are distinct, every record is stored under its
  own identifier, and every record is valid.
\<close>

definition store_inv :: "TodoDatabase \<Rightarrow> bool" where
  "store_inv db =
     (distinct (map fst db) \<and> list_all (\<lambda>(k, d). id_field d = k \<and> valid_fields d) db)"

text \<open>
  A request creates a record under the identifier \<open>k\<close> when it is a \<open>POST /todos\<close> for
  which \<open>_generate_id\<close> returns \<open>k\<close>.
\<close>

fun creates :: "string \<Rightarrow> request \<times> environment \<Rightarrow> bool" where
  "creates k (POST_todos b, env) = (generate_id (uuid4_hex env) = k)"
| "creates k (req, env) = False"

text \<open>A request body in which every member given as \<open>null\<close> is left out instead.\<close>

definition omit_null :: "'a field \<Rightarrow> 'a field" where
  "omit_null f = (case f of Unset \<Rightarrow> Unset | Null \<Rightarrow> Unset | Val v \<Rightarrow> Val v)"

definition omit_nulls :: "request_body \<Rightarrow> request_body" where
  "omit_nulls b =
     \<lparr>body_title = omit_null (body_title b), body_description = omit_null (body_description b),
      body_status = omit_null (body_status b), body_priority = omit_null (body_priority b)\<rparr>"

text \<open>
  Listing, in the words of the specification: a record matches when it satisfies every
  filter that is supplied, and a record is listed before another when its priority is
  higher or, at equal priority, its creation time is not later.
\<close>

definition matches :: "TodoStatus option \<Rightarrow> int option \<Rightarrow> TodoResponse \<Rightarrow> bool" where
  "matches status_filter priority_filter t =
     ((case status_filter of None \<Rightarrow> True | Some s \<Rightarrow> status t = s) \<and>
      (case priority_filter of None \<Rightarrow> True | Some p \<Rightarrow> priority t = p))"

definition listed_before :: "TodoResponse \<Rightarrow> TodoResponse \<Rightarrow> bool" where
  "listed_before a b =
     (priority b < priority a \<or> (priority a = priority b \<and> created_at a \<le> created_at b))"

section \<open>Properties of the primitives\<close>

lemma rstrip_eq_Nil: "rstrip v = [] \<longleftrightarrow> (\<forall>c\<in>set v. isspace c)"
  by (simp add: rstrip_def dropWhile_eq_Nil_conv)

lemma strip_eq_Nil: "strip v = [] \<longleftrightarrow> (\<forall>c\<in>set v. isspace c)"
proof -
  have "strip v = [] \<longleftrightarrow> (\<forall>c\<in>set (dropWhile isspace v). isspace c)"
    by (simp add: strip_def lstrip_def rstrip_eq_Nil)
  also have "\<dots> \<longleftrightarrow> dropWhile isspace v = []"
    by (metis dropWhile_eq_Nil_conv dropWhile_idem)
  also have "\<dots> \<longleftrightarrow> (\<forall>c\<in>set v. isspace c)"
    by (simp add: dropWhile_eq_Nil_conv)
  finally show ?thesis .
qed

lemma rstrip_prefix: "\<exists>zs. v = rstrip v @ zs"
proof -
  have "rev v = takeWhile isspace (rev v) @ dropWhile isspace (rev v)" by simp
  then have "v = rev (dropWhile isspace (rev v)) @ rev (takeWhile isspace (rev v))"
    by (metis rev_append rev_rev_ident)
  then show ?thesis unfolding rstrip_def by blast
qed

lemma length_strip: "length (strip v) \<le> length v"
proof -
  have "length (dropWhile isspace (rev (lstrip v))) \<le> length (rev (lstrip v))"
    by (rule length_dropWhile_le)
  then have "length (strip v) \<le> length (lstrip v)"
    by (simp add: strip_def rstrip_def)
  also have "\<dots> \<le> length v" by (simp add: lstrip_def length_dropWhile_le)
  finally show ?thesis .
qed

lemma strip_fixed: "v \<noteq> [] \<Longrightarrow> \<not> isspace (hd v) \<Longrightarrow> \<not> isspace (last v) \<Longrightarrow> strip v = v"
proof -
  assume nz: "v \<noteq> []" and h: "\<not> isspace (hd v)" and l: "\<not> isspace (last v)"
  have a: "lstrip v = v" using nz h by (cases v) (simp_all add: lstrip_def)
  have "hd (rev v) = last v" using nz by (simp add: hd_rev)
  then have "\<not> isspace (hd (rev v))" using l by simp
  then have "dropWhile isspace (rev v) = rev v" by (simp add: dropWhile_eq_self_iff)
  then have "rstrip v = v" by (simp add: rstrip_def)
  with a show ?thesis by (simp add: strip_def)
qed

lemma strip_ends: "strip v \<noteq> [] \<Longrightarrow> \<not> isspace (hd (strip v)) \<and> \<not> isspace (last (strip v))"
proof -
  assume nz: "strip v \<noteq> []"
  let ?u = "lstrip v"
  obtain zs where u: "?u = strip v @ zs" using rstrip_prefix [of ?u] by (auto simp: strip_def)
  have un: "?u \<noteq> []" using nz u by auto
  have "\<not> isspace (hd ?u)" using un unfolding lstrip_def by (rule hd_dropWhile)
  moreover have "hd ?u = hd (strip v)" using u nz by (metis hd_append2)
  ultimately have h: "\<not> isspace (hd (strip v))" by simp
  have dn: "dropWhile isspace (rev ?u) \<noteq> []" using nz by (simp add: strip_def rstrip_def)
  have "last (strip v) = hd (dropWhile isspace (rev ?u))"
    using dn by (simp add: strip_def rstrip_def last_rev)
  moreover have "\<not> isspace (hd (dropWhile isspace (rev ?u)))" using dn by (rule hd_dropWhile)
  ultimately show ?thesis using h by simp
qed

lemma strip_idem: "strip (strip v) = strip v"
proof (cases "strip v = []")
  case True
  then have "lstrip (strip v) = []" by (simp add: lstrip_def)
  then show ?thesis using True by (simp add: strip_def rstrip_def)
next
  case False
  then show ?thesis using strip_ends [OF False] by (intro strip_fixed) auto
qed


section \<open>Validation\<close>

lemma ap_Inr_iff: "ap f x = Inr y \<longleftrightarrow> (\<exists>g a. f = Inr g \<and> x = Inr a \<and> y = g a)"
  by (cases f; cases x) auto

lemma TodoBase_title_Inr:
  "TodoBase_title f = Inr t \<longleftrightarrow> (\<exists>v. f = Val v \<and> v \<noteq> [] \<and> length v \<le> 200 \<and> strip v \<noteq> [] \<and> t = strip v)"
  by (cases f) (auto simp: TodoBase_title_def str_constraints_def TodoBase_title_must_not_be_empty_def)

lemma valid_title_strip: "v \<noteq> [] \<Longrightarrow> length v \<le> 200 \<Longrightarrow> strip v \<noteq> [] \<Longrightarrow> valid_title (strip v)"
  using length_strip [of v] by (simp add: valid_title_def strip_idem)

lemma TodoBase_title_valid: "valid_title t \<Longrightarrow> TodoBase_title (Val t) = Inr t"
  by (auto simp: TodoBase_title_Inr valid_title_def)

lemma TodoBase_description_Inr:
  "TodoBase_description f = Inr d \<longleftrightarrow>
     (f = Unset \<and> d = None) \<or> (f = Null \<and> d = None) \<or> (\<exists>v. f = Val v \<and> length v \<le> 1000 \<and> d = Some v)"
  by (cases f) (auto simp: TodoBase_description_def str_constraints_def)

lemma TodoBase_status_Inr:
  "TodoBase_status f = Inr s \<longleftrightarrow> (f = Unset \<and> s = PENDING) \<or> f = Val s"
  by (cases f) (auto simp: TodoBase_status_def)

lemma TodoBase_priority_Inr:
  "TodoBase_priority f = Inr p \<longleftrightarrow> (f = Unset \<and> p = 1) \<or> (f = Val p \<and> 1 \<le> p \<and> p \<le> 5)"
  by (cases f) (auto simp: TodoBase_priority_def int_constraints_def)

lemma TodoCreate_validate_valid: "TodoCreate_validate b = Inr todo \<Longrightarrow> valid_fields todo"
  by (auto simp: TodoCreate_validate_def ap_Inr_iff TodoBase_title_Inr TodoBase_description_Inr
       TodoBase_priority_Inr valid_fields_def valid_description_def intro: valid_title_strip)

lemma TodoResponse_validate_valid: "valid_fields d \<Longrightarrow> TodoResponse_validate d = Inr d"
  by (cases "description d")
     (auto simp: TodoResponse_validate_def valid_fields_def valid_description_def
        TodoBase_title_valid TodoBase_description_def str_constraints_def TodoBase_status_def
        TodoBase_priority_def int_constraints_def)

lemma TodoResponse_validate_Inr:
  "TodoResponse_validate d = Inr r \<Longrightarrow>
     valid_fields r \<and> title r = strip (title d) \<and> description r = description d \<and>
     status r = status d \<and> priority r = priority d \<and> id_field r = id_field d \<and>
     created_at r = created_at d \<and> updated_at r = updated_at d"
  by (cases "description d")
     (auto simp: TodoResponse_validate_def ap_Inr_iff TodoBase_title_Inr TodoBase_description_Inr
        TodoBase_priority_Inr TodoBase_status_Inr valid_fields_def valid_description_def
        intro: valid_title_strip)

lemma TodoUpdate_title_Inr:
  "TodoUpdate_title f = Inr t \<longleftrightarrow>
     (f = Unset \<and> t = None) \<or> (f = Null \<and> t = None) \<or>
     (\<exists>v. f = Val v \<and> v \<noteq> [] \<and> length v \<le> 200 \<and> strip v \<noteq> [] \<and> t = Some (strip v))"
  by (cases f)
     (auto simp: TodoUpdate_title_def str_constraints_def TodoUpdate_title_must_not_be_empty_def)

lemma TodoUpdate_description_Inr:
  "TodoUpdate_description f = Inr d \<longleftrightarrow>
     (f = Unset \<and> d = None) \<or> (f = Null \<and> d = None) \<or> (\<exists>v. f = Val v \<and> length v \<le> 1000 \<and> d = Some v)"
  by (cases f) (auto simp: TodoUpdate_description_def str_constraints_def)

lemma TodoUpdate_status_Inr:
  "TodoUpdate_status f = Inr s \<longleftrightarrow>
     (f = Unset \<and> s = None) \<or> (f = Null \<and> s = None) \<or> (\<exists>v. f = Val v \<and> s = Some v)"
  by (cases f) (auto simp: TodoUpdate_status_def)

lemma TodoUpdate_priority_Inr:
  "TodoUpdate_priority f = Inr p \<longleftrightarrow>
     (f = Unset \<and> p = None) \<or> (f = Null \<and> p = None) \<or>
     (\<exists>v. f = Val v \<and> 1 \<le> v \<and> v \<le> 5 \<and> p = Some v)"
  by (cases f) (auto simp: TodoUpdate_priority_def int_constraints_def)

lemma TodoUpdate_validate_valid: "TodoUpdate_validate b = Inr u \<Longrightarrow> valid_update u"
  by (auto simp: TodoUpdate_validate_def ap_Inr_iff TodoUpdate_title_Inr TodoUpdate_description_Inr
       TodoUpdate_priority_Inr valid_update_def valid_description_def intro: valid_title_strip)


section \<open>The record store\<close>

lemma update_loop:
  "fold (\<lambda>(fld, v) d. if v \<noteq> PyNone then setitem d fld v else d) (model_dump_exclude_unset u) d =
     d\<lparr>title := (if ''title'' \<in> set (model_fields_set u) \<and> upd_title u \<noteq> None
                 then the (upd_title u) else title d),
       description := (if ''description'' \<in> set (model_fields_set u) \<and> upd_description u \<noteq> None
                 then upd_description u else description d),
       status := (if ''status'' \<in> set (model_fields_set u) \<and> upd_status u \<noteq> None
                 then the (upd_status u) else status d),
       priority := (if ''priority'' \<in> set (model_fields_set u) \<and> upd_priority u \<noteq> None
                 then the (upd_priority u) else priority d)\<rparr>"
  by (cases "upd_title u"; cases "upd_description u"; cases "upd_status u"; cases "upd_priority u")
     (simp_all add: model_dump_exclude_unset_def dump_field_def setitem_def)

lemma list_all_update:
  "P (k, v) \<Longrightarrow> list_all P al \<Longrightarrow> list_all P (AList.update k v al)"
  by (induction al) auto

lemma list_all_delete: "list_all P al \<Longrightarrow> list_all P (AList.delete k al)"
  by (induction al) auto

lemma store_inv_lookup:
  "store_inv db \<Longrightarrow> map_of db k = Some d \<Longrightarrow> id_field d = k \<and> valid_fields d"
  by (auto simp: store_inv_def list_all_iff dest!: map_of_SomeD)

lemma store_inv_init: "store_inv init"
  by (simp add: store_inv_def init_def)

lemma store_inv_create:
  "store_inv db \<Longrightarrow> valid_fields todo \<Longrightarrow> store_inv (fst (create db hex now todo))"
  by (simp add: store_inv_def create_def Let_def distinct_update list_all_update valid_fields_def)

lemma valid_fields_updated:
  assumes "valid_fields d" and "valid_update u"
  shows "valid_fields
     (fold (\<lambda>(fld, v) d. if v \<noteq> PyNone then setitem d fld v else d) (model_dump_exclude_unset u) d
        \<lparr>updated_at := now\<rparr>)"
  using assms
  by (auto simp: update_loop valid_fields_def valid_update_def valid_description_def
        split: option.splits)

lemma id_field_updated:
  "id_field
     (fold (\<lambda>(fld, v) d. if v \<noteq> PyNone then setitem d fld v else d) (model_dump_exclude_unset u) d
        \<lparr>updated_at := now\<rparr>) = id_field d"
  by (simp add: update_loop)

lemma store_inv_update:
  assumes "store_inv db" and "valid_update u"
  shows "store_inv (fst (update db k u now))"
proof (cases "map_of db k")
  case None
  then show ?thesis using assms by (simp add: update_def)
next
  case (Some d)
  from store_inv_lookup [OF assms(1) Some] have d: "id_field d = k" "valid_fields d" by auto
  show ?thesis
    using assms(1) valid_fields_updated [OF d(2) assms(2), of now] d(1)
    by (simp add: update_def Some Let_def store_inv_def distinct_update list_all_update
         id_field_updated del: fold_simps)
qed

lemma store_inv_delete: "store_inv db \<Longrightarrow> store_inv (fst (delete db k))"
  by (simp add: store_inv_def delete_def distinct_delete list_all_delete)

lemma snd_create_todo: "snd (create_todo db hex now todo) = fst (create db hex now todo)"
  by (simp add: create_todo_def split: prod.splits sum.splits)

lemma snd_update_todo: "snd (update_todo db k u now) = fst (update db k u now)"
  by (simp add: update_todo_def split: prod.splits sum.splits option.splits)

lemma snd_delete_todo: "snd (delete_todo db k) = fst (delete db k)"
  by (simp add: delete_todo_def split: prod.splits bool.splits)

lemma store_inv_handle: "store_inv db \<Longrightarrow> store_inv (snd (handle req env db))"
proof (cases req)
  case (POST_todos b)
  assume "store_inv db"
  then show ?thesis
    by (cases "TodoCreate_validate b")
       (simp_all add: POST_todos snd_create_todo store_inv_create TodoCreate_validate_valid)
next
  case (PUT_todo k b)
  assume "store_inv db"
  then show ?thesis
    by (cases "TodoUpdate_validate b")
       (simp_all add: PUT_todo snd_update_todo store_inv_update TodoUpdate_validate_valid)
next
  case (DELETE_todo k)
  assume "store_inv db"
  then show ?thesis
    by (simp add: DELETE_todo snd_delete_todo store_inv_delete)
qed (auto split: sum.splits)

lemma store_inv_run: "store_inv db \<Longrightarrow> store_inv (run reqs db)"
  by (induction reqs arbitrary: db) (auto simp: store_inv_handle)


lemma get_absent: "map_of db k = None \<Longrightarrow> get db k = Inr None"
  by (simp add: get_def)

lemma update_absent: "map_of db k = None \<Longrightarrow> update db k u now = (db, Inr None)"
  by (simp add: update_def)

lemma delete_absent: "map_of db k = None \<Longrightarrow> delete db k = (db, False)"
  by (simp add: delete_def)

lemma delete_present:
  "map_of db k \<noteq> None \<Longrightarrow> delete db k = (AList.delete k db, True)"
  by (simp add: delete_def)

lemma absent_after_update: "map_of db k = None \<Longrightarrow> map_of (fst (update db k' u now)) k = None"
proof (cases "map_of db k'")
  case None
  assume "map_of db k = None"
  then show ?thesis by (simp add: update_def None)
next
  case (Some d)
  assume a: "map_of db k = None"
  then have "k \<noteq> k'" using Some by auto
  then show ?thesis using a by (simp add: update_def Some Let_def update_conv' del: fold_simps)
qed

lemma absent_after_delete: "map_of db k = None \<Longrightarrow> map_of (fst (delete db k')) k = None"
  by (simp add: delete_def delete_conv')

lemma absent_after_create:
  "map_of db k = None \<Longrightarrow> generate_id hex \<noteq> k \<Longrightarrow>
     map_of (fst (create db hex now todo)) k = None"
  by (simp add: create_def Let_def update_conv')

lemma absent_after_handle:
  "map_of db k = None \<Longrightarrow> \<not> creates k (req, env) \<Longrightarrow>
     map_of (snd (handle req env db)) k = None"
proof (cases req)
  case (POST_todos b)
  assume "map_of db k = None" and "\<not> creates k (req, env)"
  then show ?thesis
    by (cases "TodoCreate_validate b")
       (simp_all add: POST_todos snd_create_todo absent_after_create)
next
  case (PUT_todo k' b)
  assume "map_of db k = None"
  then show ?thesis
    by (cases "TodoUpdate_validate b") (simp_all add: PUT_todo snd_update_todo absent_after_update)
next
  case (DELETE_todo k')
  assume "map_of db k = None"
  then show ?thesis by (simp add: DELETE_todo snd_delete_todo absent_after_delete)
qed (auto split: sum.splits)

lemma absent_after_run:
  "map_of db k = None \<Longrightarrow> \<forall>re \<in> set reqs. \<not> creates k re \<Longrightarrow>
     map_of (run reqs db) k = None"
proof (induction reqs arbitrary: db)
  case Nil
  then show ?case by simp
next
  case (Cons a reqs)
  obtain req env where a: "a = (req, env)" by (cases a)
  from Cons.prems have "\<not> creates k (req, env)" by (simp add: a)
  with Cons.prems(1) have "map_of (snd (handle req env db)) k = None"
    by (rule absent_after_handle)
  moreover from Cons.prems have "\<forall>re \<in> set reqs. \<not> creates k re" by simp
  ultimately have "map_of (run reqs (snd (handle req env db))) k = None"
    by (rule Cons.IH)
  then show ?case by (simp add: a)
qed

lemma handle_absent:
  assumes "map_of db k = None"
  shows "handle (GET_todo k) env db = (Response 404 (Detail (not_found_detail k)), db)"
    and "TodoUpdate_validate b = Inr tu \<Longrightarrow>
           handle (PUT_todo k b) env db = (Response 404 (Detail (not_found_detail k)), db)"
    and "handle (DELETE_todo k) env db = (Response 404 (Detail (not_found_detail k)), db)"
  using assms
  by (simp_all add: get_todo_def update_todo_def delete_todo_def get_absent update_absent
        delete_absent)

lemma not_found_when_absent:
  assumes a: "map_of db k = None"
  shows "get db k = Inr None \<and> update db k u now = (db, Inr None) \<and>
         delete db k = (db, False) \<and>
         handle (GET_todo k) env db = (Response 404 (Detail (not_found_detail k)), db) \<and>
         (TodoUpdate_validate b = Inr tu \<longrightarrow>
            handle (PUT_todo k b) env db = (Response 404 (Detail (not_found_detail k)), db)) \<and>
         handle (DELETE_todo k) env db = (Response 404 (Detail (not_found_detail k)), db)"
proof -
  have 1: "get db k = Inr None" using a by (rule get_absent)
  have 2: "update db k u now = (db, Inr None)" using a by (rule update_absent)
  have 3: "delete db k = (db, False)" using a by (rule delete_absent)
  have 4: "handle (GET_todo k) env db = (Response 404 (Detail (not_found_detail k)), db)"
    using a by (rule handle_absent(1))
  have 5: "TodoUpdate_validate b = Inr tu \<longrightarrow>
            handle (PUT_todo k b) env db = (Response 404 (Detail (not_found_detail k)), db)"
    using handle_absent(2) [OF a] by blast
  have 6: "handle (DELETE_todo k) env db = (Response 404 (Detail (not_found_detail k)), db)"
    using a by (rule handle_absent(3))
  from 1 2 3 4 5 6 show ?thesis by (intro conjI)
qed


section \<open>Request validation\<close>

lemma TodoCreate_validate_Inr:
  "TodoCreate_validate b = Inr todo \<longleftrightarrow>
     (\<exists>t d s p. TodoBase_title (body_title b) = Inr t \<and>
        TodoBase_description (body_description b) = Inr d \<and>
        TodoBase_status (body_status b) = Inr s \<and>
        TodoBase_priority (body_priority b) = Inr p \<and>
        todo = \<lparr>title = t, description = d, status = s, priority = p\<rparr>)"
  by (auto simp: TodoCreate_validate_def ap_Inr_iff)

lemma TodoUpdate_validate_Inr:
  "TodoUpdate_validate b = Inr u \<longleftrightarrow>
     (\<exists>t d s p. TodoUpdate_title (body_title b) = Inr t \<and>
        TodoUpdate_description (body_description b) = Inr d \<and>
        TodoUpdate_status (body_status b) = Inr s \<and>
        TodoUpdate_priority (body_priority b) = Inr p \<and>
        u = \<lparr>upd_title = t, upd_description = d, upd_status = s, upd_priority = p,
             model_fields_set =
               supplied ''title'' (body_title b) @
               supplied ''description'' (body_description b) @
               supplied ''status'' (body_status b) @
               supplied ''priority'' (body_priority b)\<rparr>)"
  by (auto simp: TodoUpdate_validate_def ap_Inr_iff)

lemma blank_title_create: "\<forall>c\<in>set t. isspace c \<Longrightarrow> \<exists>e. TodoCreate_validate (b\<lparr>body_title := Val t\<rparr>) = Inl e"
proof -
  assume "\<forall>c\<in>set t. isspace c"
  then have "strip t = []" by (simp add: strip_eq_Nil)
  then have "\<not> (\<exists>todo. TodoCreate_validate (b\<lparr>body_title := Val t\<rparr>) = Inr todo)"
    by (simp add: TodoCreate_validate_Inr TodoBase_title_Inr)
  then show ?thesis by (cases "TodoCreate_validate (b\<lparr>body_title := Val t\<rparr>)") auto
qed

lemma blank_title_update: "\<forall>c\<in>set t. isspace c \<Longrightarrow> \<exists>e. TodoUpdate_validate (b\<lparr>body_title := Val t\<rparr>) = Inl e"
proof -
  assume "\<forall>c\<in>set t. isspace c"
  then have "strip t = []" by (simp add: strip_eq_Nil)
  then have "\<not> (\<exists>u. TodoUpdate_validate (b\<lparr>body_title := Val t\<rparr>) = Inr u)"
    by (simp add: TodoUpdate_validate_Inr TodoUpdate_title_Inr)
  then show ?thesis by (cases "TodoUpdate_validate (b\<lparr>body_title := Val t\<rparr>)") auto
qed

lemma bad_priority_create:
  "p < 1 \<or> 5 < p \<Longrightarrow> \<exists>e. TodoCreate_validate (b\<lparr>body_priority := Val p\<rparr>) = Inl e"
proof -
  assume "p < 1 \<or> 5 < p"
  then have "\<not> (\<exists>todo. TodoCreate_validate (b\<lparr>body_priority := Val p\<rparr>) = Inr todo)"
    by (auto simp: TodoCreate_validate_Inr TodoBase_priority_Inr)
  then show ?thesis by (cases "TodoCreate_validate (b\<lparr>body_priority := Val p\<rparr>)") auto
qed

lemma bad_priority_update:
  "p < 1 \<or> 5 < p \<Longrightarrow> \<exists>e. TodoUpdate_validate (b\<lparr>body_priority := Val p\<rparr>) = Inl e"
proof -
  assume "p < 1 \<or> 5 < p"
  then have "\<not> (\<exists>u. TodoUpdate_validate (b\<lparr>body_priority := Val p\<rparr>) = Inr u)"
    by (auto simp: TodoUpdate_validate_Inr TodoUpdate_priority_Inr)
  then show ?thesis by (cases "TodoUpdate_validate (b\<lparr>body_priority := Val p\<rparr>)") auto
qed

lemma good_priority_create:
  "1 \<le> q \<Longrightarrow> q \<le> 5 \<Longrightarrow> TodoCreate_validate b = Inr todo \<Longrightarrow>
     TodoCreate_validate (b\<lparr>body_priority := Val q\<rparr>) = Inr (todo\<lparr>priority := q\<rparr>)"
  by (auto simp: TodoCreate_validate_Inr TodoBase_priority_Inr)

lemma good_priority_update:
  "1 \<le> q \<Longrightarrow> q \<le> 5 \<Longrightarrow> TodoUpdate_validate b = Inr u \<Longrightarrow>
     \<exists>u'. TodoUpdate_validate (b\<lparr>body_priority := Val q\<rparr>) = Inr u' \<and> upd_priority u' = Some q"
  by (auto simp: TodoUpdate_validate_Inr TodoUpdate_priority_Inr)

lemma rejected_create:
  "TodoCreate_validate b = Inl e \<Longrightarrow>
     handle (POST_todos b) env db = (Response 422 (ValidationErrors e), db)"
  by simp

lemma rejected_update:
  "TodoUpdate_validate b = Inl e \<Longrightarrow>
     handle (PUT_todo k b) env db = (Response 422 (ValidationErrors e), db)"
  by simp


section \<open>Null members of an update\<close>

lemma omit_null_title: "TodoUpdate_title (omit_null f) = TodoUpdate_title f"
  by (cases f)
     (simp_all add: omit_null_def TodoUpdate_title_def TodoUpdate_title_must_not_be_empty_def)

lemma omit_null_description: "TodoUpdate_description (omit_null f) = TodoUpdate_description f"
  by (cases f) (simp_all add: omit_null_def TodoUpdate_description_def)

lemma omit_null_status: "TodoUpdate_status (omit_null f) = TodoUpdate_status f"
  by (cases f) (simp_all add: omit_null_def TodoUpdate_status_def)

lemma omit_null_priority: "TodoUpdate_priority (omit_null f) = TodoUpdate_priority f"
  by (cases f) (simp_all add: omit_null_def TodoUpdate_priority_def)

lemma ap4_Inl:
  "ap (ap (ap (ap (Inr F) a) b) c) d = Inl e \<Longrightarrow> ap (ap (ap (ap (Inr G) a) b) c) d = Inl e"
  by (cases a; cases b; cases c; cases d) simp_all

lemma TodoUpdate_validate_omit_nulls_Inl:
  "TodoUpdate_validate b = Inl e \<Longrightarrow> TodoUpdate_validate (omit_nulls b) = Inl e"
  unfolding TodoUpdate_validate_def
  by (simp add: omit_nulls_def omit_null_title omit_null_description omit_null_status
        omit_null_priority)
     (erule ap4_Inl)

lemma TodoUpdate_validate_omit_nulls_Inr:
  assumes "TodoUpdate_validate b = Inr u"
  shows "TodoUpdate_validate (omit_nulls b) =
       Inr (u\<lparr>model_fields_set :=
                supplied ''title'' (omit_null (body_title b)) @
                supplied ''description'' (omit_null (body_description b)) @
                supplied ''status'' (omit_null (body_status b)) @
                supplied ''priority'' (omit_null (body_priority b))\<rparr>)"
proof -
  from assms obtain t d s p where
    c: "TodoUpdate_title (body_title b) = Inr t"
       "TodoUpdate_description (body_description b) = Inr d"
       "TodoUpdate_status (body_status b) = Inr s"
       "TodoUpdate_priority (body_priority b) = Inr p"
    and u: "u = \<lparr>upd_title = t, upd_description = d, upd_status = s, upd_priority = p,
             model_fields_set =
               supplied ''title'' (body_title b) @
               supplied ''description'' (body_description b) @
               supplied ''status'' (body_status b) @
               supplied ''priority'' (body_priority b)\<rparr>"
    unfolding TodoUpdate_validate_Inr by blast
  show ?thesis
    unfolding TodoUpdate_validate_def omit_nulls_def
    by (simp add: omit_null_title omit_null_description omit_null_status omit_null_priority c u)
qed

lemma supplied_Val: "name \<in> set (supplied name f) \<longleftrightarrow> f \<noteq> Unset"
  by (cases f) (simp_all add: supplied_def)

lemma supplied_other: "name \<noteq> name' \<Longrightarrow> name \<notin> set (supplied name' f)"
  by (cases f) (simp_all add: supplied_def)

lemma supplied_members:
  "''title'' \<in> set (supplied ''title'' f @ supplied ''description'' g @
      supplied ''status'' h @ supplied ''priority'' i) \<longleftrightarrow> f \<noteq> Unset"
  "''description'' \<in> set (supplied ''title'' f @ supplied ''description'' g @
      supplied ''status'' h @ supplied ''priority'' i) \<longleftrightarrow> g \<noteq> Unset"
  "''status'' \<in> set (supplied ''title'' f @ supplied ''description'' g @
      supplied ''status'' h @ supplied ''priority'' i) \<longleftrightarrow> h \<noteq> Unset"
  "''priority'' \<in> set (supplied ''title'' f @ supplied ''description'' g @
      supplied ''status'' h @ supplied ''priority'' i) \<longleftrightarrow> i \<noteq> Unset"
  by (simp_all add: supplied_Val supplied_other)

text \<open>
  A validated field has a value only if the request gave it one: an absent member and a
  \<open>null\<close> member both leave it \<open>None\<close>.
\<close>

lemma TodoUpdate_title_value:
  "TodoUpdate_title f = Inr t \<Longrightarrow> t \<noteq> None \<longleftrightarrow> (\<exists>v. f = Val v)"
  by (cases f) (auto simp: TodoUpdate_title_Inr)

lemma TodoUpdate_description_value:
  "TodoUpdate_description f = Inr t \<Longrightarrow> t \<noteq> None \<longleftrightarrow> (\<exists>v. f = Val v)"
  by (cases f) (auto simp: TodoUpdate_description_Inr)

lemma TodoUpdate_status_value:
  "TodoUpdate_status f = Inr t \<Longrightarrow> t \<noteq> None \<longleftrightarrow> (\<exists>v. f = Val v)"
  by (cases f) (auto simp: TodoUpdate_status_Inr)

lemma TodoUpdate_priority_value:
  "TodoUpdate_priority f = Inr t \<Longrightarrow> t \<noteq> None \<longleftrightarrow> (\<exists>v. f = Val v)"
  by (cases f) (auto simp: TodoUpdate_priority_Inr)

lemma present_non_null:
  "(f \<noteq> Unset \<and> (\<exists>v. f = Val v)) = (\<exists>v. f = Val v)"
  "(omit_null f \<noteq> Unset \<and> (\<exists>v. f = Val v)) = (\<exists>v. f = Val v)"
  by (cases f; simp add: omit_null_def)+

lemma value_supplied:
  assumes "t \<noteq> None \<longleftrightarrow> (\<exists>v. f = Val v)"
  shows "(omit_null f \<noteq> Unset \<and> t \<noteq> None) = (f \<noteq> Unset \<and> t \<noteq> None)"
proof (cases f)
  case Unset
  then show ?thesis by (simp add: omit_null_def)
next
  case Null
  with assms have "t = None" by simp
  then show ?thesis by simp
next
  case (Val v)
  then show ?thesis by (simp add: omit_null_def)
qed

lemma update_omit_nulls:
  assumes "TodoUpdate_validate b = Inr u" and "TodoUpdate_validate (omit_nulls b) = Inr u'"
  shows "update db k u' now = update db k u now"
proof -
  from assms(1) obtain t d s p where
    c: "TodoUpdate_title (body_title b) = Inr t"
       "TodoUpdate_description (body_description b) = Inr d"
       "TodoUpdate_status (body_status b) = Inr s"
       "TodoUpdate_priority (body_priority b) = Inr p"
    and u: "u = \<lparr>upd_title = t, upd_description = d, upd_status = s, upd_priority = p,
             model_fields_set =
               supplied ''title'' (body_title b) @
               supplied ''description'' (body_description b) @
               supplied ''status'' (body_status b) @
               supplied ''priority'' (body_priority b)\<rparr>"
    unfolding TodoUpdate_validate_Inr by blast
  have u': "u' = \<lparr>upd_title = t, upd_description = d, upd_status = s, upd_priority = p,
             model_fields_set =
               supplied ''title'' (omit_null (body_title b)) @
               supplied ''description'' (omit_null (body_description b)) @
               supplied ''status'' (omit_null (body_status b)) @
               supplied ''priority'' (omit_null (body_priority b))\<rparr>"
    using TodoUpdate_validate_omit_nulls_Inr [OF assms(1)] assms(2) by (simp add: u)
  have v: "upd_title u' = upd_title u" "upd_description u' = upd_description u"
    "upd_status u' = upd_status u" "upd_priority u' = upd_priority u"
    by (simp_all add: u u')
  have ct: "(''title'' \<in> set (model_fields_set u') \<and> upd_title u \<noteq> None) =
            (''title'' \<in> set (model_fields_set u) \<and> upd_title u \<noteq> None)"
    using value_supplied [OF TodoUpdate_title_value [OF c(1)]]
    by (simp add: u u' supplied_Val supplied_other)
  have cd: "(''description'' \<in> set (model_fields_set u') \<and> upd_description u \<noteq> None) =
            (''description'' \<in> set (model_fields_set u) \<and> upd_description u \<noteq> None)"
    using value_supplied [OF TodoUpdate_description_value [OF c(2)]]
    by (simp add: u u' supplied_Val supplied_other)
  have cs: "(''status'' \<in> set (model_fields_set u') \<and> upd_status u \<noteq> None) =
            (''status'' \<in> set (model_fields_set u) \<and> upd_status u \<noteq> None)"
    using value_supplied [OF TodoUpdate_status_value [OF c(3)]]
    by (simp add: u u' supplied_Val supplied_other)
  have cp: "(''priority'' \<in> set (model_fields_set u') \<and> upd_priority u \<noteq> None) =
            (''priority'' \<in> set (model_fields_set u) \<and> upd_priority u \<noteq> None)"
    using value_supplied [OF TodoUpdate_priority_value [OF c(4)]]
    by (simp add: u u' supplied_Val supplied_other)
  have eq: "fold (\<lambda>(fld, v) d. if v \<noteq> PyNone then setitem d fld v else d)
           (model_dump_exclude_unset u') x =
        fold (\<lambda>(fld, v) d. if v \<noteq> PyNone then setitem d fld v else d)
           (model_dump_exclude_unset u) x" for x
    by (simp only: update_loop v ct cd cs cp)
  show ?thesis
  proof (cases "map_of db k")
    case None
    then show ?thesis by (simp add: update_def)
  next
    case (Some old)
    show ?thesis
      unfolding update_def Some Let_def option.case eq ..
  qed
qed

lemma handle_omit_nulls:
  "handle (PUT_todo k (omit_nulls b)) env db = handle (PUT_todo k b) env db"
proof (cases "TodoUpdate_validate b")
  case (Inl e)
  then show ?thesis by (simp add: TodoUpdate_validate_omit_nulls_Inl)
next
  case (Inr u)
  from TodoUpdate_validate_omit_nulls_Inr [OF Inr] obtain u'
    where u': "TodoUpdate_validate (omit_nulls b) = Inr u'" by blast
  show ?thesis
    by (simp add: Inr u' update_todo_def update_omit_nulls [OF Inr u'])
qed

lemma update_stored:
  "map_of db k = Some old \<Longrightarrow>
     map_of (fst (update db k u now)) k =
       Some (fold (\<lambda>(fld, v) d. if v \<noteq> PyNone then setitem d fld v else d)
               (model_dump_exclude_unset u) old \<lparr>updated_at := now\<rparr>)"
  by (simp add: update_def Let_def update_conv' del: fold_simps)

lemma null_member_keeps_value:
  assumes "TodoUpdate_validate b = Inr u"
  shows "body_title b = Null \<or> body_title b = Unset \<Longrightarrow> upd_title u = None"
    and "body_description b = Null \<or> body_description b = Unset \<Longrightarrow> upd_description u = None"
    and "body_status b = Null \<or> body_status b = Unset \<Longrightarrow> upd_status u = None"
    and "body_priority b = Null \<or> body_priority b = Unset \<Longrightarrow> upd_priority u = None"
proof -
  from assms obtain t d s p where
    c: "TodoUpdate_title (body_title b) = Inr t"
       "TodoUpdate_description (body_description b) = Inr d"
       "TodoUpdate_status (body_status b) = Inr s"
       "TodoUpdate_priority (body_priority b) = Inr p"
    and u: "upd_title u = t" "upd_description u = d" "upd_status u = s" "upd_priority u = p"
    unfolding TodoUpdate_validate_Inr by auto
  show "body_title b = Null \<or> body_title b = Unset \<Longrightarrow> upd_title u = None"
    using TodoUpdate_title_value [OF c(1)] u(1) by auto
  show "body_description b = Null \<or> body_description b = Unset \<Longrightarrow> upd_description u = None"
    using TodoUpdate_description_value [OF c(2)] u(2) by auto
  show "body_status b = Null \<or> body_status b = Unset \<Longrightarrow> upd_status u = None"
    using TodoUpdate_status_value [OF c(3)] u(3) by auto
  show "body_priority b = Null \<or> body_priority b = Unset \<Longrightarrow> upd_priority u = None"
    using TodoUpdate_priority_value [OF c(4)] u(4) by auto
qed


section \<open>Listing\<close>

lemma responses_valid: "list_all valid_fields ds \<Longrightarrow> responses ds = Inr ds"
  by (induction ds) (simp_all add: TodoResponse_validate_valid)

lemma store_inv_values: "store_inv db \<Longrightarrow> list_all valid_fields (map snd db)"
  by (auto simp: store_inv_def list_all_iff)

lemma TodoStatus_value_truthy: "TodoStatus_value s \<noteq> []"
  by (cases s) simp_all

lemma get_all_selects:
  assumes "priority_filter \<noteq> Some 0"
  shows "(case priority_filter of
            None \<Rightarrow> (case status_filter of
                       None \<Rightarrow> todos
                     | Some s \<Rightarrow> if TodoStatus_value s \<noteq> [] then filter (\<lambda>t. status t = s) todos else todos)
          | Some p \<Rightarrow> if p \<noteq> 0
              then filter (\<lambda>t. priority t = p)
                (case status_filter of
                       None \<Rightarrow> todos
                     | Some s \<Rightarrow> if TodoStatus_value s \<noteq> [] then filter (\<lambda>t. status t = s) todos else todos)
              else (case status_filter of
                       None \<Rightarrow> todos
                     | Some s \<Rightarrow> if TodoStatus_value s \<noteq> [] then filter (\<lambda>t. status t = s) todos else todos)) =
         filter (matches status_filter priority_filter) todos"
  using assms
  by (cases priority_filter; cases status_filter)
     (auto simp: matches_def TodoStatus_value_truthy intro: filter_cong)

lemma get_all_eq:
  assumes "store_inv db" and "priority_filter \<noteq> Some 0"
  shows "get_all db status_filter priority_filter =
           Inr (sort_key (\<lambda>x. (- priority x, created_at x))
                  (filter (matches status_filter priority_filter) (map snd db)))"
proof -
  have "list_all valid_fields (sort_key (\<lambda>x. (- priority x, created_at x))
                  (filter (matches status_filter priority_filter) (map snd db)))"
    using store_inv_values [OF assms(1)] by (auto simp: list_all_iff)
  then show ?thesis
    unfolding get_all_def Let_def get_all_selects [OF assms(2)]
    by (rule responses_valid)
qed

lemma priority_query_Inr:
  "priority_query q = Inr p \<longleftrightarrow>
     p = q \<and> (q = None \<or> (\<exists>v. q = Some v \<and> 1 \<le> v \<and> v \<le> 5))"
  by (cases q) (auto simp: priority_query_def int_constraints_def)

lemma sorted_listed_before:
  "sorted_wrt listed_before (sort_key (\<lambda>x. (- priority x, created_at x)) ts)"
proof -
  have "sorted (map (\<lambda>x. (- priority x, created_at x)) (sort_key (\<lambda>x. (- priority x, created_at x)) ts))"
    by (rule sorted_sort_key)
  then have "sorted_wrt (\<lambda>a b. (- priority a, created_at a) \<le> (- priority b, created_at b))
               (sort_key (\<lambda>x. (- priority x, created_at x)) ts)"
    by (simp add: sorted_map)
  moreover have "(\<lambda>a b. (- priority a, created_at a) \<le> (- priority b, created_at b)) = listed_before"
    by (intro ext) (auto simp: listed_before_def)
  ultimately show ?thesis by simp
qed

lemma stable_listing:
  "filter (\<lambda>t. priority t = p \<and> created_at t = c) (sort_key (\<lambda>x. (- priority x, created_at x)) ts) =
   filter (\<lambda>t. priority t = p \<and> created_at t = c) ts"
proof -
  have e: "(\<lambda>t. priority t = p \<and> created_at t = c) = (\<lambda>t. (- priority t, created_at t) = (- p, c))"
    by auto
  show ?thesis unfolding e by (rule sort_key_stable)
qed

lemma validate_example:
  "TodoResponse_validate
     \<lparr>title = ''TODO'', description = None, status = PENDING, priority = p,
      id_field = k, created_at = c, updated_at = c\<rparr> =
   (if p < 1 then Inl [(''priority'', GreaterThanEqual)]
    else if 5 < p then Inl [(''priority'', LessThanEqual)]
    else Inr \<lparr>title = ''TODO'', description = None, status = PENDING, priority = p,
      id_field = k, created_at = c, updated_at = c\<rparr>)"
  by (simp add: TodoResponse_validate_def TodoBase_title_def TodoBase_description_def
        TodoBase_status_def TodoBase_priority_def str_constraints_def int_constraints_def
        TodoBase_title_must_not_be_empty_def strip_def lstrip_def rstrip_def isspace_def)

lemma post_example:
  "1 \<le> p \<Longrightarrow> p \<le> 5 \<Longrightarrow>
   handle (POST_todos \<lparr>body_title = Val ''TODO'', body_description = Unset, body_status = s,
                     body_priority = Val p\<rparr>) \<lparr>uuid4_hex = h, clock = c\<rparr> db =
     (case TodoBase_status s of
        Inl e \<Rightarrow> (Response 422 (ValidationErrors e), db)
      | Inr st \<Rightarrow>
         (Response 201 (Todo \<lparr>title = ''TODO'', description = None, status = st, priority = p,
            id_field = ''todo-'' @ take 8 h, created_at = c, updated_at = c\<rparr>),
          AList.update (''todo-'' @ take 8 h)
            \<lparr>title = ''TODO'', description = None, status = st, priority = p,
             id_field = ''todo-'' @ take 8 h, created_at = c, updated_at = c\<rparr> db))"
  by (cases "TodoBase_status s")
     (simp_all add: create_todo_def create_def generate_id_def Let_def
        TodoResponse_validate_def TodoBase_status_def
        TodoCreate_validate_def TodoBase_title_def TodoBase_description_def
        TodoBase_priority_def str_constraints_def int_constraints_def
        TodoBase_title_must_not_be_empty_def strip_def lstrip_def rstrip_def isspace_def)


section \<open>Statistics\<close>

lemma str_digits:
  "str 1 = ''1''" "str 2 = ''2''" "str 3 = ''3''" "str 4 = ''4''" "str 5 = ''5''"
  by (simp_all add: str_def str_nat.simps digit_char_def)

lemma matches_None: "filter (matches None None) ts = ts"
  by (simp add: matches_def)

lemma get_all_unfiltered:
  "store_inv db \<Longrightarrow>
     get_all db None None = Inr (sort_key (\<lambda>x. (- priority x, created_at x)) (map snd db))"
  using get_all_eq [of db None None] by (simp add: matches_None)

lemma length_filter_sort_key:
  "length (filter P (sort_key f xs)) = length (filter P xs)"
proof -
  have "mset (filter P (sort_key f xs)) = mset (filter P xs)" by simp
  then show ?thesis by (rule mset_eq_length)
qed

lemma get_stats_eq:
  assumes "store_inv db"
  shows "get_stats db =
     Response 200 (Stats
       \<lparr>total = count db,
        by_status =
          [(''pending'', length (filter (\<lambda>t. status t = PENDING) (map snd db))),
           (''in_progress'', length (filter (\<lambda>t. status t = IN_PROGRESS) (map snd db))),
           (''completed'', length (filter (\<lambda>t. status t = COMPLETED) (map snd db)))],
        by_priority =
          [(''1'', length (filter (\<lambda>t. priority t = 1) (map snd db))),
           (''2'', length (filter (\<lambda>t. priority t = 2) (map snd db))),
           (''3'', length (filter (\<lambda>t. priority t = 3) (map snd db))),
           (''4'', length (filter (\<lambda>t. priority t = 4) (map snd db))),
           (''5'', length (filter (\<lambda>t. priority t = 5) (map snd db)))]\<rparr>)"
  by (simp add: get_stats_def get_all_unfiltered [OF assms] length_filter_sort_key str_digits
        count_def)

lemma status_partition:
  "length (filter (\<lambda>t. status t = PENDING) ts) +
   length (filter (\<lambda>t. status t = IN_PROGRESS) ts) +
   length (filter (\<lambda>t. status t = COMPLETED) ts) = length ts"
proof (induction ts)
  case Nil
  then show ?case by simp
next
  case (Cons t ts)
  then show ?case by (cases "status t") simp_all
qed

lemma priority_partition:
  "list_all (\<lambda>t. 1 \<le> priority t \<and> priority t \<le> 5) ts \<Longrightarrow>
   length (filter (\<lambda>t. priority t = 1) ts) + length (filter (\<lambda>t. priority t = 2) ts) +
   length (filter (\<lambda>t. priority t = 3) ts) + length (filter (\<lambda>t. priority t = 4) ts) +
   length (filter (\<lambda>t. priority t = 5) ts) = length ts"
proof (induction ts)
  case Nil
  then show ?case by simp
next
  case (Cons t ts)
  from Cons.prems have "priority t = 1 \<or> priority t = 2 \<or> priority t = 3 \<or>
      priority t = 4 \<or> priority t = 5" by auto
  moreover from Cons have "length (filter (\<lambda>t. priority t = 1) ts) + length (filter (\<lambda>t. priority t = 2) ts) +
   length (filter (\<lambda>t. priority t = 3) ts) + length (filter (\<lambda>t. priority t = 4) ts) +
   length (filter (\<lambda>t. priority t = 5) ts) = length ts" by simp
  ultimately show ?case by auto
qed

lemma store_inv_priorities:
  "store_inv db \<Longrightarrow> list_all (\<lambda>t. 1 \<le> priority t \<and> priority t \<le> 5) (map snd db)"
  by (auto simp: store_inv_def list_all_iff valid_fields_def)

lemma four_creates:
  "run [(POST_todos \<lparr>body_title = Val ''TODO'', body_description = Unset,
           body_status = Val PENDING, body_priority = Val 1\<rparr>,
         \<lparr>uuid4_hex = ''00000001aaaa'', clock = 1000\<rparr>),
        (POST_todos \<lparr>body_title = Val ''TODO'', body_description = Unset,
           body_status = Val IN_PROGRESS, body_priority = Val 3\<rparr>,
         \<lparr>uuid4_hex = ''00000002aaaa'', clock = 2000\<rparr>),
        (POST_todos \<lparr>body_title = Val ''TODO'', body_description = Unset,
           body_status = Val COMPLETED, body_priority = Val 5\<rparr>,
         \<lparr>uuid4_hex = ''00000003aaaa'', clock = 3000\<rparr>),
        (POST_todos \<lparr>body_title = Val ''TODO'', body_description = Unset,
           body_status = Val PENDING, body_priority = Val 1\<rparr>,
         \<lparr>uuid4_hex = ''00000004aaaa'', clock = 4000\<rparr>)] init =
   [(''todo-00000001'',
       \<lparr>title = ''TODO'', description = None, status = PENDING, priority = 1,
        id_field = ''todo-00000001'', created_at = 1000, updated_at = 1000\<rparr>),
    (''todo-00000002'',
       \<lparr>title = ''TODO'', description = None, status = IN_PROGRESS, priority = 3,
        id_field = ''todo-00000002'', created_at = 2000, updated_at = 2000\<rparr>),
    (''todo-00000003'',
       \<lparr>title = ''TODO'', description = None, status = COMPLETED, priority = 5,
        id_field = ''todo-00000003'', created_at = 3000, updated_at = 3000\<rparr>),
    (''todo-00000004'',
       \<lparr>title = ''TODO'', description = None, status = PENDING, priority = 1,
        id_field = ''todo-00000004'', created_at = 4000, updated_at = 4000\<rparr>)]"
  by (simp add: post_example TodoBase_status_def init_def del: handle.simps)


section \<open>Timestamps and identifiers\<close>

lemma valid_title_not_blank: "valid_title t \<Longrightarrow> t \<noteq> [] \<and> \<not> (\<forall>c\<in>set t. isspace c)"
proof -
  assume v: "valid_title t"
  then have "strip t \<noteq> []" by (simp add: valid_title_def)
  then have "\<not> (\<forall>c\<in>set t. isspace c)" by (simp add: strip_eq_Nil)
  with v show ?thesis by (simp add: valid_title_def)
qed

lemma stamps_weaken:
  "list_all (\<lambda>(k, d). created_at d \<le> updated_at d \<and> created_at d \<le> t) db \<Longrightarrow> t \<le> t' \<Longrightarrow>
   list_all (\<lambda>(k, d). created_at d \<le> updated_at d \<and> created_at d \<le> (t' :: int)) db"
  by (induction db) auto

lemma stamps_create:
  assumes "list_all (\<lambda>(k, d). created_at d \<le> updated_at d \<and> created_at d \<le> t) db"
    and "t \<le> now"
  shows "list_all (\<lambda>(k, d). created_at d \<le> updated_at d \<and> created_at d \<le> now)
           (fst (create db hex now todo))"
  using stamps_weaken [OF assms]
  by (simp add: create_def Let_def list_all_update)

lemma stamps_update:
  assumes "list_all (\<lambda>(k, d). created_at d \<le> updated_at d \<and> created_at d \<le> t) db"
    and "t \<le> now"
  shows "list_all (\<lambda>(k, d). created_at d \<le> updated_at d \<and> created_at d \<le> now)
           (fst (update db k u now))"
proof (cases "map_of db k")
  case None
  then show ?thesis using stamps_weaken [OF assms] by (simp add: update_def)
next
  case (Some old)
  then have "(k, old) \<in> set db" by (rule map_of_SomeD)
  with assms(1) have "created_at old \<le> t" by (auto simp: list_all_iff)
  with assms(2) have c: "created_at old \<le> now" by simp
  let ?new = "fold (\<lambda>(fld, v) d. if v \<noteq> PyNone then setitem d fld v else d)
                (model_dump_exclude_unset u) old \<lparr>updated_at := now\<rparr>"
  have n: "created_at ?new \<le> updated_at ?new \<and> created_at ?new \<le> now"
    using c by (simp add: update_loop)
  have "fst (update db k u now) = AList.update k ?new db"
    by (simp add: update_def Some Let_def del: fold_simps)
  then show ?thesis
    using stamps_weaken [OF assms] n by (simp add: list_all_update del: fold_simps)
qed

lemma stamps_delete:
  assumes "list_all (\<lambda>(k, d). created_at d \<le> updated_at d \<and> created_at d \<le> t) db"
    and "t \<le> now"
  shows "list_all (\<lambda>(k, d). created_at d \<le> updated_at d \<and> created_at d \<le> now)
           (fst (delete db k))"
  using stamps_weaken [OF assms] by (simp add: delete_def list_all_delete)

lemma stamps_handle:
  assumes "list_all (\<lambda>(k, d). created_at d \<le> updated_at d \<and> created_at d \<le> t) db"
    and "t \<le> clock env"
  shows "list_all (\<lambda>(k, d). created_at d \<le> updated_at d \<and> created_at d \<le> clock env)
           (snd (handle req env db))"
proof (cases req)
  case (POST_todos b)
  show ?thesis
    using stamps_weaken [OF assms] stamps_create [OF assms]
    by (cases "TodoCreate_validate b") (simp_all add: POST_todos snd_create_todo)
next
  case (PUT_todo k b)
  show ?thesis
    using stamps_weaken [OF assms] stamps_update [OF assms]
    by (cases "TodoUpdate_validate b") (simp_all add: PUT_todo snd_update_todo)
next
  case (DELETE_todo k)
  show ?thesis
    using stamps_delete [OF assms] by (simp add: DELETE_todo snd_delete_todo)
next
  case (GET_todos sf pf)
  show ?thesis
    using stamps_weaken [OF assms] by (simp add: GET_todos split: sum.splits)
next
  case (GET_todo k)
  show ?thesis using stamps_weaken [OF assms] by (simp add: GET_todo)
next
  case GET_stats_summary
  show ?thesis using stamps_weaken [OF assms] by (simp add: GET_stats_summary)
next
  case GET_health
  show ?thesis using stamps_weaken [OF assms] by (simp add: GET_health)
qed

lemma stamps_run:
  "list_all (\<lambda>(k, d). created_at d \<le> updated_at d \<and> created_at d \<le> t) db \<Longrightarrow>
   sorted (map (\<lambda>(req, env). clock env) reqs) \<Longrightarrow>
   \<forall>(req, env) \<in> set reqs. t \<le> clock env \<Longrightarrow>
   list_all (\<lambda>(k, d). created_at d \<le> updated_at d) (run reqs db)"
proof (induction reqs arbitrary: db t)
  case Nil
  then show ?case by (auto simp: list_all_iff)
next
  case (Cons a reqs)
  obtain req env where a: "a = (req, env)" by (cases a)
  from Cons.prems(3) have t: "t \<le> clock env" by (simp add: a)
  have 1: "list_all (\<lambda>(k, d). created_at d \<le> updated_at d \<and> created_at d \<le> clock env)
           (snd (handle req env db))"
    using Cons.prems(1) t by (rule stamps_handle)
  have 2: "sorted (map (\<lambda>(req, env). clock env) reqs)"
    using Cons.prems(2) by simp
  have 3: "\<forall>(req', env') \<in> set reqs. clock env \<le> clock env'"
    using Cons.prems(2) by (auto simp: a)
  show ?case
    using Cons.IH [OF 1 2 3] by (simp add: a)
qed

lemma stamps_run_init:
  assumes "sorted (map (\<lambda>(req, env). clock env) reqs)"
  shows "list_all (\<lambda>(k, d). created_at d \<le> updated_at d) (run reqs init)"
proof (cases reqs)
  case Nil
  then show ?thesis by (simp add: init_def)
next
  case (Cons a rest)
  obtain req env where a: "a = (req, env)" by (cases a)
  have 1: "list_all (\<lambda>(k, d). created_at d \<le> updated_at d \<and> created_at d \<le> clock env) init"
    by (simp add: init_def)
  have 3: "\<forall>(req', env') \<in> set reqs. clock env \<le> clock env'"
    using assms by (auto simp: Cons a)
  show ?thesis using 1 assms 3 by (rule stamps_run)
qed

text \<open>
  When the identifier is not in use, \<open>create\<close> adds one record at the end of the store
  and leaves the others alone.
\<close>

lemma update_new_key: "map_of al k = None \<Longrightarrow> AList.update k v al = al @ [(k, v)]"
  by (induction al) (auto split: if_splits)

lemma create_fresh:
  assumes "map_of db (generate_id hex) = None"
  shows "fst (create db hex now todo) =
           db @ [(generate_id hex,
                  \<lparr>title = title todo, description = description todo, status = status todo,
                   priority = priority todo, id_field = generate_id hex, created_at = now,
                   updated_at = now\<rparr>)]"
    and "count (fst (create db hex now todo)) = count db + 1"
  using update_new_key [OF assms] by (simp_all add: create_def Let_def count_def)

lemma put_priority_example:
  "1 \<le> p \<Longrightarrow> p \<le> 5 \<Longrightarrow> 1 \<le> q \<Longrightarrow> q \<le> 5 \<Longrightarrow>
   handle (PUT_todo k \<lparr>body_title = Unset, body_description = Unset, body_status = Unset,
                       body_priority = Val q\<rparr>) \<lparr>uuid4_hex = h, clock = c'\<rparr>
     [(k, \<lparr>title = ''TODO'', description = None, status = PENDING, priority = p,
           id_field = k, created_at = c, updated_at = c\<rparr>)] =
     (Response 200 (Todo \<lparr>title = ''TODO'', description = None, status = PENDING, priority = q,
           id_field = k, created_at = c, updated_at = c'\<rparr>),
      [(k, \<lparr>title = ''TODO'', description = None, status = PENDING, priority = q,
           id_field = k, created_at = c, updated_at = c'\<rparr>)])"
  by (simp add: TodoUpdate_validate_def TodoUpdate_title_def TodoUpdate_description_def
        TodoUpdate_status_def TodoUpdate_priority_def int_constraints_def supplied_def
        update_todo_def update_def Let_def model_dump_exclude_unset_def dump_field_def
        setitem_def
        TodoResponse_validate_def TodoBase_title_def TodoBase_description_def
        TodoBase_status_def TodoBase_priority_def str_constraints_def
        TodoBase_title_must_not_be_empty_def strip_def lstrip_def rstrip_def isspace_def)

lemma create_then_update_run:
  "run [(POST_todos \<lparr>body_title = Val ''TODO'', body_description = Unset, body_status = Unset,
                     body_priority = Val 1\<rparr>, \<lparr>uuid4_hex = ''00000001aaaa'', clock = c\<rparr>),
        (PUT_todo ''todo-00000001'' \<lparr>body_title = Unset, body_description = Unset,
                     body_status = Unset, body_priority = Val 2\<rparr>,
         \<lparr>uuid4_hex = ''00000002aaaa'', clock = c'\<rparr>)] init =
   [(''todo-00000001'',
       \<lparr>title = ''TODO'', description = None, status = PENDING, priority = 2,
        id_field = ''todo-00000001'', created_at = c, updated_at = c'\<rparr>)]"
  by (simp add: post_example put_priority_example TodoBase_status_def init_def
        del: handle.simps)


section \<open>The properties of the specification\<close>

text \<open>
  C4. Creating a record from a valid \<open>TodoCreate\<close> and fetching it by the returned
  identifier yields the created record: it has the title, description, status and
  priority of the input, an identifier and both timestamps, and its two timestamps are
  equal. The same holds through \<open>POST /todos\<close> followed by \<open>GET /todos/{id}\<close>.
\<close>

theorem create_then_get:
  assumes "TodoCreate_validate b = Inr todo"
  shows "\<exists>r db'. create db hex now todo = (db', Inr r) \<and>
           get db' (id_field r) = Inr (Some r) \<and>
           title r = title todo \<and> description r = description todo \<and>
           status r = status todo \<and> priority r = priority todo \<and>
           id_field r = generate_id hex \<and> id_field r \<noteq> [] \<and>
           created_at r = now \<and> updated_at r = now \<and> created_at r = updated_at r \<and>
           handle (POST_todos b) \<lparr>uuid4_hex = hex, clock = now\<rparr> db = (Response 201 (Todo r), db') \<and>
           handle (GET_todo (id_field r)) env db' = (Response 200 (Todo r), db')"
proof -
  let ?r = "\<lparr>title = title todo, description = description todo, status = status todo,
             priority = priority todo, id_field = generate_id hex, created_at = now,
             updated_at = now\<rparr>"
  have v: "valid_fields ?r"
    using TodoCreate_validate_valid [OF assms] by (simp add: valid_fields_def)
  have r: "TodoResponse_validate ?r = Inr ?r"
    using v by (rule TodoResponse_validate_valid)
  have c: "create db hex now todo = (AList.update (generate_id hex) ?r db, Inr ?r)"
    by (simp add: create_def Let_def r)
  have g: "get (AList.update (generate_id hex) ?r db) (generate_id hex) = Inr (Some ?r)"
    by (simp add: get_def update_conv' r)
  have p: "handle (POST_todos b) \<lparr>uuid4_hex = hex, clock = now\<rparr> db =
             (Response 201 (Todo ?r), AList.update (generate_id hex) ?r db)"
    by (simp add: assms create_todo_def c)
  have q: "handle (GET_todo (generate_id hex)) env (AList.update (generate_id hex) ?r db) =
             (Response 200 (Todo ?r), AList.update (generate_id hex) ?r db)"
    by (simp add: get_todo_def g)
  have n: "generate_id hex \<noteq> []" by (simp add: generate_id_def)
  show ?thesis
    using c g p q n by simp
qed

theorem create_then_get_witness:
  "TodoCreate_validate \<lparr>body_title = Val ''  Learn FastAPI '', body_description = Unset,
       body_status = Unset, body_priority = Val 4\<rparr> =
     Inr \<lparr>title = ''Learn FastAPI'', description = None, status = PENDING, priority = 4\<rparr> \<and>
   (\<exists>r db'. create init ''0123456789abcdef0123456789abcdef'' 1000
         \<lparr>title = ''Learn FastAPI'', description = None, status = PENDING, priority = 4\<rparr> =
       (db', Inr r) \<and>
     get db' (id_field r) = Inr (Some r) \<and> title r = ''Learn FastAPI'' \<and>
     id_field r = ''todo-01234567'' \<and> created_at r = updated_at r)"
proof -
  have v: "TodoCreate_validate \<lparr>body_title = Val ''  Learn FastAPI '', body_description = Unset,
       body_status = Unset, body_priority = Val 4\<rparr> =
     Inr \<lparr>title = ''Learn FastAPI'', description = None, status = PENDING, priority = 4\<rparr>"
    by (simp add: TodoCreate_validate_def TodoBase_title_def TodoBase_description_def
          TodoBase_status_def TodoBase_priority_def str_constraints_def int_constraints_def
          TodoBase_title_must_not_be_empty_def strip_def lstrip_def rstrip_def isspace_def)
  show ?thesis
    using create_then_get [OF v, of init "''0123456789abcdef0123456789abcdef''" 1000]
    by (simp add: v generate_id_def) blast
qed

text \<open>
  C2. An update of an existing record replaces exactly the fields that the partial
  update supplies with a value other than \<open>None\<close>; every other field keeps its value,
  \<open>id\<close> and \<open>created_at\<close> never change, \<open>updated_at\<close> becomes the current time whether
  or not a value changed, and the other records and the order of the store are
  untouched.
\<close>

theorem update_applies_supplied_fields:
  assumes "map_of db todo_id = Some old"
  shows "\<exists>new. fst (update db todo_id u now) = AList.update todo_id new db \<and>
           map_of (fst (update db todo_id u now)) todo_id = Some new \<and>
           title new = (if ''title'' \<in> set (model_fields_set u) \<and> upd_title u \<noteq> None
                        then the (upd_title u) else title old) \<and>
           description new = (if ''description'' \<in> set (model_fields_set u) \<and> upd_description u \<noteq> None
                        then upd_description u else description old) \<and>
           status new = (if ''status'' \<in> set (model_fields_set u) \<and> upd_status u \<noteq> None
                        then the (upd_status u) else status old) \<and>
           priority new = (if ''priority'' \<in> set (model_fields_set u) \<and> upd_priority u \<noteq> None
                        then the (upd_priority u) else priority old) \<and>
           id_field new = id_field old \<and> created_at new = created_at old \<and>
           updated_at new = now \<and>
           (\<forall>k. k \<noteq> todo_id \<longrightarrow> map_of (fst (update db todo_id u now)) k = map_of db k) \<and>
           map fst (fst (update db todo_id u now)) = map fst db \<and>
           (valid_fields old \<and> valid_update u \<longrightarrow>
              snd (update db todo_id u now) = Inr (Some new) \<and>
              update_todo db todo_id u now = (Response 200 (Todo new), AList.update todo_id new db))"
proof -
  let ?new = "fold (\<lambda>(fld, v) d. if v \<noteq> PyNone then setitem d fld v else d)
                (model_dump_exclude_unset u) old \<lparr>updated_at := now\<rparr>"
  have u: "update db todo_id u now =
             (AList.update todo_id ?new db,
              case TodoResponse_validate ?new of Inl e \<Rightarrow> Inl e | Inr r \<Rightarrow> Inr (Some r))"
    by (simp add: update_def assms Let_def del: fold_simps)
  have k: "todo_id \<in> set (map fst db)"
    using assms by (metis map_of_eq_None_iff option.distinct(1) set_map)
  have keys: "map fst (AList.update todo_id ?new db) = map fst db"
    using k by (simp add: update_keys)
  have ok: "valid_fields old \<and> valid_update u \<longrightarrow> TodoResponse_validate ?new = Inr ?new"
    using valid_fields_updated [of old u now] TodoResponse_validate_valid by blast
  have "fst (update db todo_id u now) = AList.update todo_id ?new db" by (simp add: u)
  moreover have "map_of (fst (update db todo_id u now)) todo_id = Some ?new"
    by (simp add: u update_conv')
  moreover have "\<forall>k. k \<noteq> todo_id \<longrightarrow> map_of (fst (update db todo_id u now)) k = map_of db k"
    by (simp add: u update_conv')
  moreover have "map fst (fst (update db todo_id u now)) = map fst db"
    using keys by (simp add: u)
  moreover have "valid_fields old \<and> valid_update u \<longrightarrow>
              snd (update db todo_id u now) = Inr (Some ?new) \<and>
              update_todo db todo_id u now = (Response 200 (Todo ?new), AList.update todo_id ?new db)"
    using ok by (simp add: u update_todo_def)
  moreover have "title ?new = (if ''title'' \<in> set (model_fields_set u) \<and> upd_title u \<noteq> None
                        then the (upd_title u) else title old)"
    by (simp add: update_loop)
  moreover have "description ?new = (if ''description'' \<in> set (model_fields_set u) \<and> upd_description u \<noteq> None
                        then upd_description u else description old)"
    by (simp add: update_loop)
  moreover have "status ?new = (if ''status'' \<in> set (model_fields_set u) \<and> upd_status u \<noteq> None
                        then the (upd_status u) else status old)"
    by (simp add: update_loop)
  moreover have "priority ?new = (if ''priority'' \<in> set (model_fields_set u) \<and> upd_priority u \<noteq> None
                        then the (upd_priority u) else priority old)"
    by (simp add: update_loop)
  moreover have "id_field ?new = id_field old \<and> created_at ?new = created_at old \<and>
           updated_at ?new = now"
    by (simp add: update_loop)
  ultimately show ?thesis by blast
qed

text \<open>Updating only the status of a stored record.\<close>

theorem update_applies_supplied_fields_witness:
  "map_of [(''todo-01234567'',
       \<lparr>title = ''Test'', description = Some ''d'', status = PENDING, priority = 2,
        id_field = ''todo-01234567'', created_at = 1000, updated_at = 1000\<rparr>)] ''todo-01234567'' =
     Some \<lparr>title = ''Test'', description = Some ''d'', status = PENDING, priority = 2,
        id_field = ''todo-01234567'', created_at = 1000, updated_at = 1000\<rparr> \<and>
   valid_fields \<lparr>title = ''Test'', description = Some ''d'', status = PENDING, priority = 2,
        id_field = ''todo-01234567'', created_at = 1000, updated_at = 1000\<rparr> \<and>
   valid_update \<lparr>upd_title = None, upd_description = None, upd_status = Some COMPLETED,
        upd_priority = None, model_fields_set = [''status'']\<rparr> \<and>
   update_todo [(''todo-01234567'',
       \<lparr>title = ''Test'', description = Some ''d'', status = PENDING, priority = 2,
        id_field = ''todo-01234567'', created_at = 1000, updated_at = 1000\<rparr>)] ''todo-01234567''
       \<lparr>upd_title = None, upd_description = None, upd_status = Some COMPLETED,
        upd_priority = None, model_fields_set = [''status'']\<rparr> 2000 =
     (Response 200 (Todo
       \<lparr>title = ''Test'', description = Some ''d'', status = COMPLETED, priority = 2,
        id_field = ''todo-01234567'', created_at = 1000, updated_at = 2000\<rparr>),
      [(''todo-01234567'',
       \<lparr>title = ''Test'', description = Some ''d'', status = COMPLETED, priority = 2,
        id_field = ''todo-01234567'', created_at = 1000, updated_at = 2000\<rparr>)])"
proof -
  let ?old = "\<lparr>title = ''Test'', description = Some ''d'', status = PENDING, priority = 2,
        id_field = ''todo-01234567'', created_at = 1000, updated_at = 1000\<rparr>"
  let ?db = "[(''todo-01234567'', ?old)]"
  let ?u = "\<lparr>upd_title = None, upd_description = None, upd_status = Some COMPLETED,
        upd_priority = None, model_fields_set = [''status'']\<rparr>"
  have h: "map_of ?db ''todo-01234567'' = Some ?old" by simp
  have vo: "valid_fields ?old"
    by (simp add: valid_fields_def valid_title_def valid_description_def strip_def lstrip_def
          rstrip_def isspace_def)
  have vu: "valid_update ?u"
    by (simp add: valid_update_def valid_description_def)
  from update_applies_supplied_fields [OF h, of ?u 2000]
  obtain new :: TodoResponse where
    n: "title new = ''Test''" "description new = Some ''d''" "status new = COMPLETED"
       "priority new = 2" "id_field new = ''todo-01234567''" "created_at new = 1000"
       "updated_at new = 2000"
    and r: "valid_fields ?old \<and> valid_update ?u \<longrightarrow>
       update_todo ?db ''todo-01234567'' ?u 2000 =
         (Response 200 (Todo new), AList.update ''todo-01234567'' new ?db)"
    by auto
  have "new = \<lparr>title = ''Test'', description = Some ''d'', status = COMPLETED, priority = 2,
        id_field = ''todo-01234567'', created_at = 1000, updated_at = 2000\<rparr>"
    using n by (cases new) simp
  then show ?thesis using r h vo vu by simp
qed

text \<open>
  On an identifier that has no record, \<open>get\<close> and \<open>update\<close> return \<open>None\<close> (answered
  with status 404), \<open>update\<close> leaves the store as it is, and \<open>delete\<close> returns \<open>False\<close>.
  A successful \<open>delete\<close> removes the identifier, and after any further requests, none of
  which creates a record under this identifier again, every \<open>GET\<close>, \<open>PUT\<close> and \<open>DELETE\<close>
  on it is answered with status 404.
\<close>

lemma absent_id_not_found:
  "(map_of db k = None \<longrightarrow>
      get db k = Inr None \<and> update db k u now = (db, Inr None) \<and> delete db k = (db, False) \<and>
      handle (GET_todo k) env db = (Response 404 (Detail (not_found_detail k)), db) \<and>
      (TodoUpdate_validate b = Inr tu \<longrightarrow>
         handle (PUT_todo k b) env db = (Response 404 (Detail (not_found_detail k)), db)) \<and>
      handle (DELETE_todo k) env db = (Response 404 (Detail (not_found_detail k)), db)) \<and>
   (map_of db k \<noteq> None \<longrightarrow>
      snd (delete db k) = True \<and> map_of (fst (delete db k)) k = None \<and>
      fst (handle (DELETE_todo k) env db) = Response 204 NoBody \<and>
      ((\<forall>re \<in> set reqs. \<not> creates k re) \<longrightarrow>
         (let db' = run reqs (snd (handle (DELETE_todo k) env db)) in
            get db' k = Inr None \<and> update db' k u now = (db', Inr None) \<and>
            delete db' k = (db', False) \<and>
            handle (GET_todo k) env' db' = (Response 404 (Detail (not_found_detail k)), db') \<and>
            (TodoUpdate_validate b = Inr tu \<longrightarrow>
               handle (PUT_todo k b) env' db' = (Response 404 (Detail (not_found_detail k)), db')) \<and>
            handle (DELETE_todo k) env' db' = (Response 404 (Detail (not_found_detail k)), db'))))"
proof -
  have A: "map_of db k = None \<longrightarrow>
      get db k = Inr None \<and> update db k u now = (db, Inr None) \<and> delete db k = (db, False) \<and>
      handle (GET_todo k) env db = (Response 404 (Detail (not_found_detail k)), db) \<and>
      (TodoUpdate_validate b = Inr tu \<longrightarrow>
         handle (PUT_todo k b) env db = (Response 404 (Detail (not_found_detail k)), db)) \<and>
      handle (DELETE_todo k) env db = (Response 404 (Detail (not_found_detail k)), db)"
    using not_found_when_absent [of db k u now env b tu] by (rule impI)
  have B: "snd (delete db k) = True \<and> map_of (fst (delete db k)) k = None \<and>
      fst (handle (DELETE_todo k) env db) = Response 204 NoBody \<and>
      ((\<forall>re \<in> set reqs. \<not> creates k re) \<longrightarrow>
         (let db' = run reqs (snd (handle (DELETE_todo k) env db)) in
            get db' k = Inr None \<and> update db' k u now = (db', Inr None) \<and>
            delete db' k = (db', False) \<and>
            handle (GET_todo k) env' db' = (Response 404 (Detail (not_found_detail k)), db') \<and>
            (TodoUpdate_validate b = Inr tu \<longrightarrow>
               handle (PUT_todo k b) env' db' = (Response 404 (Detail (not_found_detail k)), db')) \<and>
            handle (DELETE_todo k) env' db' = (Response 404 (Detail (not_found_detail k)), db')))"
    if p: "map_of db k \<noteq> None"
  proof -
    have d: "delete db k = (AList.delete k db, True)" using p by (rule delete_present)
    have 1: "snd (delete db k) = True" by (simp add: d)
    have 2: "map_of (fst (delete db k)) k = None" by (simp add: d delete_conv')
    have 3: "fst (handle (DELETE_todo k) env db) = Response 204 NoBody"
      by (simp add: delete_todo_def d)
    have 4: "let db' = run reqs (snd (handle (DELETE_todo k) env db)) in
            get db' k = Inr None \<and> update db' k u now = (db', Inr None) \<and>
            delete db' k = (db', False) \<and>
            handle (GET_todo k) env' db' = (Response 404 (Detail (not_found_detail k)), db') \<and>
            (TodoUpdate_validate b = Inr tu \<longrightarrow>
               handle (PUT_todo k b) env' db' = (Response 404 (Detail (not_found_detail k)), db')) \<and>
            handle (DELETE_todo k) env' db' = (Response 404 (Detail (not_found_detail k)), db')"
      if n: "\<forall>re \<in> set reqs. \<not> creates k re"
    proof -
      have s: "snd (handle (DELETE_todo k) env db) = fst (delete db k)"
        by (simp add: snd_delete_todo)
      have "map_of (run reqs (fst (delete db k))) k = None"
        using 2 n by (rule absent_after_run)
      then have "map_of (run reqs (snd (handle (DELETE_todo k) env db))) k = None"
        by (simp only: s)
      from not_found_when_absent [OF this, of u now env' b tu]
      show ?thesis unfolding Let_def .
    qed
    from 1 2 3 4 show ?thesis by blast
  qed
  from A B show ?thesis by blast
qed

text \<open>
  A record is deleted, then another record is created and the deleted identifier is
  read; after that the deleted identifier is read again.
\<close>

lemma absent_id_not_found_example:
  "map_of init ''todo-01234567'' = None \<and>
   get init ''todo-01234567'' = Inr None \<and>
   delete init ''todo-01234567'' = (init, False) \<and>
   map_of [(''todo-01234567'',
       \<lparr>title = ''Test'', description = None, status = PENDING, priority = 1,
        id_field = ''todo-01234567'', created_at = 1000, updated_at = 1000\<rparr>)] ''todo-01234567'' \<noteq> None \<and>
   list_all (\<lambda>re. \<not> creates ''todo-01234567'' re)
     [(POST_todos \<lparr>body_title = Val ''TODO'', body_description = Unset, body_status = Unset,
          body_priority = Val 3\<rparr>, \<lparr>uuid4_hex = ''00000001aaaa'', clock = 1800\<rparr>),
      (GET_todo ''todo-01234567'', \<lparr>uuid4_hex = ''00000002aaaa'', clock = 2000\<rparr>)] \<and>
   handle (GET_todo ''todo-01234567'') \<lparr>uuid4_hex = ''00000003aaaa'', clock = 3000\<rparr>
     (run [(POST_todos \<lparr>body_title = Val ''TODO'', body_description = Unset, body_status = Unset,
              body_priority = Val 3\<rparr>, \<lparr>uuid4_hex = ''00000001aaaa'', clock = 1800\<rparr>),
           (GET_todo ''todo-01234567'', \<lparr>uuid4_hex = ''00000002aaaa'', clock = 2000\<rparr>)]
        (snd (handle (DELETE_todo ''todo-01234567'') \<lparr>uuid4_hex = ''00000000aaaa'', clock = 1500\<rparr>
           [(''todo-01234567'',
             \<lparr>title = ''Test'', description = None, status = PENDING, priority = 1,
              id_field = ''todo-01234567'', created_at = 1000, updated_at = 1000\<rparr>)]))) =
     (Response 404 (Detail (not_found_detail ''todo-01234567'')),
      [(''todo-00000001'',
        \<lparr>title = ''TODO'', description = None, status = PENDING, priority = 3,
         id_field = ''todo-00000001'', created_at = 1800, updated_at = 1800\<rparr>)])"
proof -
  let ?k = "''todo-01234567''"
  let ?db = "[(?k, \<lparr>title = ''Test'', description = None, status = PENDING, priority = 1,
              id_field = ?k, created_at = 1000, updated_at = 1000\<rparr>)]"
  let ?reqs = "[(POST_todos \<lparr>body_title = Val ''TODO'', body_description = Unset,
                   body_status = Unset, body_priority = Val 3\<rparr>,
                 \<lparr>uuid4_hex = ''00000001aaaa'', clock = 1800\<rparr>),
                (GET_todo ?k, \<lparr>uuid4_hex = ''00000002aaaa'', clock = 2000\<rparr>)]"
  let ?e0 = "\<lparr>uuid4_hex = ''00000000aaaa'', clock = 1500\<rparr>"
  let ?e3 = "\<lparr>uuid4_hex = ''00000003aaaa'', clock = 3000\<rparr>"
  let ?u = "\<lparr>upd_title = None, upd_description = None, upd_status = None,
        upd_priority = None, model_fields_set = []\<rparr>"
  let ?b = "\<lparr>body_title = Unset, body_description = Unset, body_status = Unset,
        body_priority = Unset\<rparr>"
  have a: "map_of init ?k = None" by (simp add: init_def)
  have p: "map_of ?db ?k \<noteq> None" by simp
  have n: "\<forall>re \<in> set ?reqs. \<not> creates ?k re" by (simp add: generate_id_def)
  have n': "list_all (\<lambda>re. \<not> creates ?k re) ?reqs" by (simp add: generate_id_def)
  have d: "snd (handle (DELETE_todo ?k) ?e0 ?db) = []"
    by (simp add: delete_todo_def delete_def)
  have r: "run ?reqs (snd (handle (DELETE_todo ?k) ?e0 ?db)) =
     [(''todo-00000001'',
        \<lparr>title = ''TODO'', description = None, status = PENDING, priority = 3,
         id_field = ''todo-00000001'', created_at = 1800, updated_at = 1800\<rparr>)]"
    unfolding d by (simp add: post_example TodoBase_status_def del: handle.simps(1))
  have 1: "get init ?k = Inr None \<and> delete init ?k = (init, False)"
    using absent_id_not_found [of init ?k ?u 0 ?e0 ?b ?u "[]"] a
    by blast
  have 2: "handle (GET_todo ?k) ?e3 (run ?reqs (snd (handle (DELETE_todo ?k) ?e0 ?db))) =
     (Response 404 (Detail (not_found_detail ?k)),
      run ?reqs (snd (handle (DELETE_todo ?k) ?e0 ?db)))"
    using absent_id_not_found [of ?db ?k ?u 0 ?e0 ?b ?u ?reqs ?e3] p n
    unfolding Let_def by blast
  show ?thesis using a p n' 1 2 unfolding r by blast
qed

text \<open>
  C3 fails after a delete when the deleted identifier is generated again. The record
  \<open>todo-deadbeef\<close> is created and deleted (status 204); a later \<open>POST /todos\<close> whose UUID
  starts with the same eight hexadecimal digits is stored under \<open>todo-deadbeef\<close>, and
  the following \<open>GET\<close> and \<open>PUT\<close> on that identifier are answered with status 200 and
  the \<open>DELETE\<close> with status 204, not with 404.
\<close>

theorem deleted_id_reissued:
  "run [(POST_todos \<lparr>body_title = Val ''TODO'', body_description = Unset, body_status = Unset,
                     body_priority = Val 1\<rparr>,
         \<lparr>uuid4_hex = ''deadbeef000040008000000000000001'', clock = 1000\<rparr>)] init =
     [(''todo-deadbeef'',
       \<lparr>title = ''TODO'', description = None, status = PENDING, priority = 1,
        id_field = ''todo-deadbeef'', created_at = 1000, updated_at = 1000\<rparr>)] \<and>
   handle (DELETE_todo ''todo-deadbeef'')
     \<lparr>uuid4_hex = ''0badcafe222240008000000000000002'', clock = 2000\<rparr>
     [(''todo-deadbeef'',
       \<lparr>title = ''TODO'', description = None, status = PENDING, priority = 1,
        id_field = ''todo-deadbeef'', created_at = 1000, updated_at = 1000\<rparr>)] =
     (Response 204 NoBody, []) \<and>
   handle (POST_todos \<lparr>body_title = Val ''TODO'', body_description = Unset, body_status = Unset,
                     body_priority = Val 3\<rparr>)
     \<lparr>uuid4_hex = ''deadbeef111140008000000000000003'', clock = 3000\<rparr> [] =
     (Response 201 (Todo
        \<lparr>title = ''TODO'', description = None, status = PENDING, priority = 3,
         id_field = ''todo-deadbeef'', created_at = 3000, updated_at = 3000\<rparr>),
      [(''todo-deadbeef'',
        \<lparr>title = ''TODO'', description = None, status = PENDING, priority = 3,
         id_field = ''todo-deadbeef'', created_at = 3000, updated_at = 3000\<rparr>)]) \<and>
   handle (GET_todo ''todo-deadbeef'')
     \<lparr>uuid4_hex = ''0badcafe444440008000000000000004'', clock = 4000\<rparr>
     [(''todo-deadbeef'',
        \<lparr>title = ''TODO'', description = None, status = PENDING, priority = 3,
         id_field = ''todo-deadbeef'', created_at = 3000, updated_at = 3000\<rparr>)] =
     (Response 200 (Todo
        \<lparr>title = ''TODO'', description = None, status = PENDING, priority = 3,
         id_field = ''todo-deadbeef'', created_at = 3000, updated_at = 3000\<rparr>),
      [(''todo-deadbeef'',
        \<lparr>title = ''TODO'', description = None, status = PENDING, priority = 3,
         id_field = ''todo-deadbeef'', created_at = 3000, updated_at = 3000\<rparr>)]) \<and>
   handle (PUT_todo ''todo-deadbeef'' \<lparr>body_title = Unset, body_description = Unset,
                     body_status = Unset, body_priority = Val 4\<rparr>)
     \<lparr>uuid4_hex = ''0badcafe555540008000000000000005'', clock = 5000\<rparr>
     [(''todo-deadbeef'',
        \<lparr>title = ''TODO'', description = None, status = PENDING, priority = 3,
         id_field = ''todo-deadbeef'', created_at = 3000, updated_at = 3000\<rparr>)] =
     (Response 200 (Todo
        \<lparr>title = ''TODO'', description = None, status = PENDING, priority = 4,
         id_field = ''todo-deadbeef'', created_at = 3000, updated_at = 5000\<rparr>),
      [(''todo-deadbeef'',
        \<lparr>title = ''TODO'', description = None, status = PENDING, priority = 4,
         id_field = ''todo-deadbeef'', created_at = 3000, updated_at = 5000\<rparr>)]) \<and>
   handle (DELETE_todo ''todo-deadbeef'')
     \<lparr>uuid4_hex = ''0badcafe666640008000000000000006'', clock = 6000\<rparr>
     [(''todo-deadbeef'',
        \<lparr>title = ''TODO'', description = None, status = PENDING, priority = 4,
         id_field = ''todo-deadbeef'', created_at = 3000, updated_at = 5000\<rparr>)] =
     (Response 204 NoBody, [])"
proof -
  have 1: "run [(POST_todos \<lparr>body_title = Val ''TODO'', body_description = Unset,
                     body_status = Unset, body_priority = Val 1\<rparr>,
         \<lparr>uuid4_hex = ''deadbeef000040008000000000000001'', clock = 1000\<rparr>)] init =
     [(''todo-deadbeef'',
       \<lparr>title = ''TODO'', description = None, status = PENDING, priority = 1,
        id_field = ''todo-deadbeef'', created_at = 1000, updated_at = 1000\<rparr>)]"
    by (simp add: post_example TodoBase_status_def init_def del: handle.simps(1))
  have 2: "handle (DELETE_todo ''todo-deadbeef'')
     \<lparr>uuid4_hex = ''0badcafe222240008000000000000002'', clock = 2000\<rparr>
     [(''todo-deadbeef'',
       \<lparr>title = ''TODO'', description = None, status = PENDING, priority = 1,
        id_field = ''todo-deadbeef'', created_at = 1000, updated_at = 1000\<rparr>)] =
     (Response 204 NoBody, [])"
    by (simp add: delete_todo_def delete_def)
  have 3: "handle (POST_todos \<lparr>body_title = Val ''TODO'', body_description = Unset,
                     body_status = Unset, body_priority = Val 3\<rparr>)
     \<lparr>uuid4_hex = ''deadbeef111140008000000000000003'', clock = 3000\<rparr> [] =
     (Response 201 (Todo
        \<lparr>title = ''TODO'', description = None, status = PENDING, priority = 3,
         id_field = ''todo-deadbeef'', created_at = 3000, updated_at = 3000\<rparr>),
      [(''todo-deadbeef'',
        \<lparr>title = ''TODO'', description = None, status = PENDING, priority = 3,
         id_field = ''todo-deadbeef'', created_at = 3000, updated_at = 3000\<rparr>)])"
    by (simp add: post_example TodoBase_status_def del: handle.simps(1))
  have 4: "handle (GET_todo ''todo-deadbeef'')
     \<lparr>uuid4_hex = ''0badcafe444440008000000000000004'', clock = 4000\<rparr>
     [(''todo-deadbeef'',
        \<lparr>title = ''TODO'', description = None, status = PENDING, priority = 3,
         id_field = ''todo-deadbeef'', created_at = 3000, updated_at = 3000\<rparr>)] =
     (Response 200 (Todo
        \<lparr>title = ''TODO'', description = None, status = PENDING, priority = 3,
         id_field = ''todo-deadbeef'', created_at = 3000, updated_at = 3000\<rparr>),
      [(''todo-deadbeef'',
        \<lparr>title = ''TODO'', description = None, status = PENDING, priority = 3,
         id_field = ''todo-deadbeef'', created_at = 3000, updated_at = 3000\<rparr>)])"
    by (simp add: get_todo_def get_def validate_example)
  have 5: "handle (PUT_todo ''todo-deadbeef'' \<lparr>body_title = Unset, body_description = Unset,
                     body_status = Unset, body_priority = Val 4\<rparr>)
     \<lparr>uuid4_hex = ''0badcafe555540008000000000000005'', clock = 5000\<rparr>
     [(''todo-deadbeef'',
        \<lparr>title = ''TODO'', description = None, status = PENDING, priority = 3,
         id_field = ''todo-deadbeef'', created_at = 3000, updated_at = 3000\<rparr>)] =
     (Response 200 (Todo
        \<lparr>title = ''TODO'', description = None, status = PENDING, priority = 4,
         id_field = ''todo-deadbeef'', created_at = 3000, updated_at = 5000\<rparr>),
      [(''todo-deadbeef'',
        \<lparr>title = ''TODO'', description = None, status = PENDING, priority = 4,
         id_field = ''todo-deadbeef'', created_at = 3000, updated_at = 5000\<rparr>)])"
    by (rule put_priority_example) simp_all
  have 6: "handle (DELETE_todo ''todo-deadbeef'')
     \<lparr>uuid4_hex = ''0badcafe666640008000000000000006'', clock = 6000\<rparr>
     [(''todo-deadbeef'',
        \<lparr>title = ''TODO'', description = None, status = PENDING, priority = 4,
         id_field = ''todo-deadbeef'', created_at = 3000, updated_at = 5000\<rparr>)] =
     (Response 204 NoBody, [])"
    by (simp add: delete_todo_def delete_def)
  from 1 2 3 4 5 6 show ?thesis by (intro conjI)
qed

text \<open>
  C7. For \<open>POST /todos\<close> and \<open>PUT /todos/{id}\<close> alike, a title that is empty or consists
  of whitespace only is rejected, and so is a priority below 1 or above 5, while a
  priority from 1 to 5 (the bounds included) never makes a request fail. A request that
  fails validation is answered with status 422 and the store stays as it was.
\<close>

theorem invalid_request_rejected:
  "(t = [] \<or> (\<forall>c\<in>set t. isspace c) \<longrightarrow>
      (\<exists>e. handle (POST_todos (b\<lparr>body_title := Val t\<rparr>)) env db =
             (Response 422 (ValidationErrors e), db)) \<and>
      (\<exists>e. handle (PUT_todo k (b\<lparr>body_title := Val t\<rparr>)) env db =
             (Response 422 (ValidationErrors e), db))) \<and>
   (p < 1 \<or> 5 < p \<longrightarrow>
      (\<exists>e. handle (POST_todos (b\<lparr>body_priority := Val p\<rparr>)) env db =
             (Response 422 (ValidationErrors e), db)) \<and>
      (\<exists>e. handle (PUT_todo k (b\<lparr>body_priority := Val p\<rparr>)) env db =
             (Response 422 (ValidationErrors e), db))) \<and>
   TodoBase_priority (Val 1) = Inr 1 \<and> TodoBase_priority (Val 5) = Inr 5 \<and>
   TodoUpdate_priority (Val 1) = Inr (Some 1) \<and> TodoUpdate_priority (Val 5) = Inr (Some 5) \<and>
   (1 \<le> q \<and> q \<le> 5 \<and> TodoCreate_validate b = Inr todo \<longrightarrow>
      TodoCreate_validate (b\<lparr>body_priority := Val q\<rparr>) = Inr (todo\<lparr>priority := q\<rparr>)) \<and>
   (1 \<le> q \<and> q \<le> 5 \<and> TodoUpdate_validate b = Inr u \<longrightarrow>
      (\<exists>u'. TodoUpdate_validate (b\<lparr>body_priority := Val q\<rparr>) = Inr u' \<and>
            upd_priority u' = Some q)) \<and>
   (TodoCreate_validate b = Inl e \<longrightarrow>
      handle (POST_todos b) env db = (Response 422 (ValidationErrors e), db)) \<and>
   (TodoUpdate_validate b = Inl e \<longrightarrow>
      handle (PUT_todo k b) env db = (Response 422 (ValidationErrors e), db))"
proof -
  have T: "(\<exists>e. handle (POST_todos (b\<lparr>body_title := Val t\<rparr>)) env db =
             (Response 422 (ValidationErrors e), db)) \<and>
      (\<exists>e. handle (PUT_todo k (b\<lparr>body_title := Val t\<rparr>)) env db =
             (Response 422 (ValidationErrors e), db))"
    if "t = [] \<or> (\<forall>c\<in>set t. isspace c)"
  proof -
    from that have w: "\<forall>c\<in>set t. isspace c" by auto
    from blank_title_create [OF w, of b] obtain e1
      where "TodoCreate_validate (b\<lparr>body_title := Val t\<rparr>) = Inl e1" ..
    then have 1: "handle (POST_todos (b\<lparr>body_title := Val t\<rparr>)) env db =
             (Response 422 (ValidationErrors e1), db)" by (rule rejected_create)
    from blank_title_update [OF w, of b] obtain e2
      where "TodoUpdate_validate (b\<lparr>body_title := Val t\<rparr>) = Inl e2" ..
    then have 2: "handle (PUT_todo k (b\<lparr>body_title := Val t\<rparr>)) env db =
             (Response 422 (ValidationErrors e2), db)" by (rule rejected_update)
    from 1 2 show ?thesis by blast
  qed
  have P: "(\<exists>e. handle (POST_todos (b\<lparr>body_priority := Val p\<rparr>)) env db =
             (Response 422 (ValidationErrors e), db)) \<and>
      (\<exists>e. handle (PUT_todo k (b\<lparr>body_priority := Val p\<rparr>)) env db =
             (Response 422 (ValidationErrors e), db))"
    if w: "p < 1 \<or> 5 < p"
  proof -
    from bad_priority_create [OF w, of b] obtain e1
      where "TodoCreate_validate (b\<lparr>body_priority := Val p\<rparr>) = Inl e1" ..
    then have 1: "handle (POST_todos (b\<lparr>body_priority := Val p\<rparr>)) env db =
             (Response 422 (ValidationErrors e1), db)" by (rule rejected_create)
    from bad_priority_update [OF w, of b] obtain e2
      where "TodoUpdate_validate (b\<lparr>body_priority := Val p\<rparr>) = Inl e2" ..
    then have 2: "handle (PUT_todo k (b\<lparr>body_priority := Val p\<rparr>)) env db =
             (Response 422 (ValidationErrors e2), db)" by (rule rejected_update)
    from 1 2 show ?thesis by blast
  qed
  have B: "TodoBase_priority (Val 1) = Inr 1 \<and> TodoBase_priority (Val 5) = Inr 5 \<and>
     TodoUpdate_priority (Val 1) = Inr (Some 1) \<and> TodoUpdate_priority (Val 5) = Inr (Some 5)"
    by (simp add: TodoBase_priority_def TodoUpdate_priority_def int_constraints_def)
  have G1: "1 \<le> q \<and> q \<le> 5 \<and> TodoCreate_validate b = Inr todo \<longrightarrow>
      TodoCreate_validate (b\<lparr>body_priority := Val q\<rparr>) = Inr (todo\<lparr>priority := q\<rparr>)"
    using good_priority_create [of q b todo] by blast
  have G2: "1 \<le> q \<and> q \<le> 5 \<and> TodoUpdate_validate b = Inr u \<longrightarrow>
      (\<exists>u'. TodoUpdate_validate (b\<lparr>body_priority := Val q\<rparr>) = Inr u' \<and>
            upd_priority u' = Some q)"
    using good_priority_update [of q b u] by blast
  have R1: "TodoCreate_validate b = Inl e \<longrightarrow>
      handle (POST_todos b) env db = (Response 422 (ValidationErrors e), db)"
    using rejected_create [of b e env db] by blast
  have R2: "TodoUpdate_validate b = Inl e \<longrightarrow>
      handle (PUT_todo k b) env db = (Response 422 (ValidationErrors e), db)"
    using rejected_update [of b e k env db] by blast
  from T P B G1 G2 R1 R2 show ?thesis by blast
qed

text \<open>
  A whitespace title and the priority 10 are rejected by both requests; with the
  priority 5 the same body creates a record.
\<close>

theorem invalid_request_rejected_witness:
  "list_all isspace ''   '' \<and> ((10::int) < 1 \<or> 5 < (10::int)) \<and>
   (1 \<le> (5::int) \<and> (5::int) \<le> 5 \<and>
    TodoCreate_validate \<lparr>body_title = Val ''Test'', body_description = Unset,
       body_status = Unset, body_priority = Unset\<rparr> =
      Inr \<lparr>title = ''Test'', description = None, status = PENDING, priority = 1\<rparr>) \<and>
   (\<exists>e. handle (POST_todos \<lparr>body_title = Val ''   '', body_description = Unset,
       body_status = Unset, body_priority = Unset\<rparr>) \<lparr>uuid4_hex = ''0123456789abcdef'', clock = 1000\<rparr> init =
     (Response 422 (ValidationErrors e), init)) \<and>
   (\<exists>e. handle (PUT_todo ''todo-01234567'' \<lparr>body_title = Val ''Test'', body_description = Unset,
       body_status = Unset, body_priority = Val 10\<rparr>) \<lparr>uuid4_hex = ''0123456789abcdef'', clock = 1000\<rparr> init =
     (Response 422 (ValidationErrors e), init)) \<and>
   TodoCreate_validate \<lparr>body_title = Val ''Test'', body_description = Unset,
       body_status = Unset, body_priority = Val 5\<rparr> =
      Inr \<lparr>title = ''Test'', description = None, status = PENDING, priority = 5\<rparr>"
proof -
  let ?b = "\<lparr>body_title = Val ''Test'', body_description = Unset,
       body_status = Unset, body_priority = Unset\<rparr>"
  let ?todo = "\<lparr>title = ''Test'', description = None, status = PENDING, priority = 1\<rparr>"
  let ?env = "\<lparr>uuid4_hex = ''0123456789abcdef'', clock = 1000\<rparr>"
  have w: "\<forall>c\<in>set ''   ''. isspace c" by (simp add: isspace_def)
  have w': "list_all isspace ''   ''" by (simp add: isspace_def)
  have v: "TodoCreate_validate ?b = Inr ?todo"
    by (simp add: TodoCreate_validate_def TodoBase_title_def TodoBase_description_def
          TodoBase_status_def TodoBase_priority_def str_constraints_def
          TodoBase_title_must_not_be_empty_def strip_def lstrip_def rstrip_def isspace_def)
  note inst = invalid_request_rejected [of "''   ''" ?b ?env init "''todo-01234567''" 10 5 ?todo
      "\<lparr>upd_title = None, upd_description = None, upd_status = None, upd_priority = None,
        model_fields_set = []\<rparr>" "[]"]
  have 1: "\<exists>e. handle (POST_todos (?b\<lparr>body_title := Val ''   ''\<rparr>)) ?env init =
     (Response 422 (ValidationErrors e), init)"
    using inst w by blast
  have 2: "\<exists>e. handle (PUT_todo ''todo-01234567'' (?b\<lparr>body_priority := Val 10\<rparr>)) ?env init =
     (Response 422 (ValidationErrors e), init)"
    using inst by simp
  have 3: "TodoCreate_validate (?b\<lparr>body_priority := Val 5\<rparr>) = Inr (?todo\<lparr>priority := 5\<rparr>)"
    using inst v by simp
  show ?thesis using w' v 1 2 3 by simp
qed

text \<open>
  C6. In the body of an update a member given as \<open>null\<close> has the effect of a member left
  out: the response and the store are the same, and the stored title, description,
  status and priority keep their values. A title given as the empty string or as
  whitespace is not ignored: the request is rejected with status 422.
\<close>

theorem null_like_omitted:
  "handle (PUT_todo k (omit_nulls b)) env db = handle (PUT_todo k b) env db \<and>
   (map_of db k = Some old \<and> TodoUpdate_validate b = Inr u \<longrightarrow>
      (\<exists>new. map_of (snd (handle (PUT_todo k b) env db)) k = Some new \<and>
         (body_title b = Null \<or> body_title b = Unset \<longrightarrow> title new = title old) \<and>
         (body_description b = Null \<or> body_description b = Unset \<longrightarrow>
            description new = description old) \<and>
         (body_status b = Null \<or> body_status b = Unset \<longrightarrow> status new = status old) \<and>
         (body_priority b = Null \<or> body_priority b = Unset \<longrightarrow>
            priority new = priority old))) \<and>
   (t = [] \<or> (\<forall>c\<in>set t. isspace c) \<longrightarrow>
      (\<exists>e. handle (PUT_todo k (b\<lparr>body_title := Val t\<rparr>)) env db =
             (Response 422 (ValidationErrors e), db)))"
proof -
  have A: "handle (PUT_todo k (omit_nulls b)) env db = handle (PUT_todo k b) env db"
    by (rule handle_omit_nulls)
  have B: "\<exists>new. map_of (snd (handle (PUT_todo k b) env db)) k = Some new \<and>
         (body_title b = Null \<or> body_title b = Unset \<longrightarrow> title new = title old) \<and>
         (body_description b = Null \<or> body_description b = Unset \<longrightarrow>
            description new = description old) \<and>
         (body_status b = Null \<or> body_status b = Unset \<longrightarrow> status new = status old) \<and>
         (body_priority b = Null \<or> body_priority b = Unset \<longrightarrow>
            priority new = priority old)"
    if o: "map_of db k = Some old" and v: "TodoUpdate_validate b = Inr u"
  proof -
    let ?new = "fold (\<lambda>(fld, v) d. if v \<noteq> PyNone then setitem d fld v else d)
               (model_dump_exclude_unset u) old \<lparr>updated_at := clock env\<rparr>"
    have s: "map_of (snd (handle (PUT_todo k b) env db)) k = Some ?new"
      using update_stored [OF o, of u "clock env"] by (simp add: v snd_update_todo)
    note n = null_member_keeps_value [OF v]
    have 1: "body_title b = Null \<or> body_title b = Unset \<longrightarrow> title ?new = title old"
      using n(1) by (auto simp: update_loop)
    have 2: "body_description b = Null \<or> body_description b = Unset \<longrightarrow>
            description ?new = description old"
      using n(2) by (auto simp: update_loop)
    have 3: "body_status b = Null \<or> body_status b = Unset \<longrightarrow> status ?new = status old"
      using n(3) by (auto simp: update_loop)
    have 4: "body_priority b = Null \<or> body_priority b = Unset \<longrightarrow>
            priority ?new = priority old"
      using n(4) by (auto simp: update_loop)
    from s 1 2 3 4 show ?thesis by blast
  qed
  have C: "\<exists>e. handle (PUT_todo k (b\<lparr>body_title := Val t\<rparr>)) env db =
             (Response 422 (ValidationErrors e), db)"
    if "t = [] \<or> (\<forall>c\<in>set t. isspace c)"
  proof -
    from that have "\<forall>c\<in>set t. isspace c" by auto
    from blank_title_update [OF this, of b] obtain e
      where "TodoUpdate_validate (b\<lparr>body_title := Val t\<rparr>) = Inl e" ..
    then have "handle (PUT_todo k (b\<lparr>body_title := Val t\<rparr>)) env db =
             (Response 422 (ValidationErrors e), db)" by (rule rejected_update)
    then show ?thesis ..
  qed
  from A B C show ?thesis by blast
qed

text \<open>
  An update whose description, status and priority are \<open>null\<close> against the same update
  with these members left out, and an update with a whitespace title.
\<close>

theorem null_like_omitted_witness:
  "map_of [(''todo-01234567'',
       \<lparr>title = ''Test'', description = Some ''d'', status = IN_PROGRESS, priority = 2,
        id_field = ''todo-01234567'', created_at = 1000, updated_at = 1000\<rparr>)] ''todo-01234567'' =
     Some \<lparr>title = ''Test'', description = Some ''d'', status = IN_PROGRESS, priority = 2,
        id_field = ''todo-01234567'', created_at = 1000, updated_at = 1000\<rparr> \<and>
   TodoUpdate_validate \<lparr>body_title = Val ''New'', body_description = Null, body_status = Null,
        body_priority = Null\<rparr> =
     Inr \<lparr>upd_title = Some ''New'', upd_description = None, upd_status = None,
        upd_priority = None,
        model_fields_set = [''title'', ''description'', ''status'', ''priority'']\<rparr> \<and>
   list_all isspace '' '' \<and>
   handle (PUT_todo ''todo-01234567'' \<lparr>body_title = Val ''New'', body_description = Null,
        body_status = Null, body_priority = Null\<rparr>) \<lparr>uuid4_hex = '''', clock = 2000\<rparr>
     [(''todo-01234567'',
       \<lparr>title = ''Test'', description = Some ''d'', status = IN_PROGRESS, priority = 2,
        id_field = ''todo-01234567'', created_at = 1000, updated_at = 1000\<rparr>)] =
   handle (PUT_todo ''todo-01234567'' \<lparr>body_title = Val ''New'', body_description = Unset,
        body_status = Unset, body_priority = Unset\<rparr>) \<lparr>uuid4_hex = '''', clock = 2000\<rparr>
     [(''todo-01234567'',
       \<lparr>title = ''Test'', description = Some ''d'', status = IN_PROGRESS, priority = 2,
        id_field = ''todo-01234567'', created_at = 1000, updated_at = 1000\<rparr>)] \<and>
   (\<exists>e. handle (PUT_todo ''todo-01234567'' \<lparr>body_title = Val '' '', body_description = Null,
        body_status = Null, body_priority = Null\<rparr>) \<lparr>uuid4_hex = '''', clock = 2000\<rparr>
     [(''todo-01234567'',
       \<lparr>title = ''Test'', description = Some ''d'', status = IN_PROGRESS, priority = 2,
        id_field = ''todo-01234567'', created_at = 1000, updated_at = 1000\<rparr>)] =
     (Response 422 (ValidationErrors e),
      [(''todo-01234567'',
       \<lparr>title = ''Test'', description = Some ''d'', status = IN_PROGRESS, priority = 2,
        id_field = ''todo-01234567'', created_at = 1000, updated_at = 1000\<rparr>)]))"
proof -
  let ?k = "''todo-01234567''"
  let ?old = "\<lparr>title = ''Test'', description = Some ''d'', status = IN_PROGRESS, priority = 2,
        id_field = ?k, created_at = 1000, updated_at = 1000\<rparr>"
  let ?db = "[(?k, ?old)]"
  let ?b = "\<lparr>body_title = Val ''New'', body_description = Null, body_status = Null,
        body_priority = Null\<rparr>"
  let ?u = "\<lparr>upd_title = Some ''New'', upd_description = None, upd_status = None,
        upd_priority = None,
        model_fields_set = [''title'', ''description'', ''status'', ''priority'']\<rparr>"
  let ?env = "\<lparr>uuid4_hex = '''', clock = 2000\<rparr>"
  have h: "map_of ?db ?k = Some ?old" by simp
  have v: "TodoUpdate_validate ?b = Inr ?u"
    by (simp add: TodoUpdate_validate_def TodoUpdate_title_def TodoUpdate_description_def
          TodoUpdate_status_def TodoUpdate_priority_def str_constraints_def supplied_def
          TodoUpdate_title_must_not_be_empty_def strip_def lstrip_def rstrip_def isspace_def)
  have w: "\<forall>c\<in>set '' ''. isspace c" by (simp add: isspace_def)
  have w': "list_all isspace '' ''" by (simp add: isspace_def)
  have o: "omit_nulls ?b = \<lparr>body_title = Val ''New'', body_description = Unset,
        body_status = Unset, body_priority = Unset\<rparr>"
    by (simp add: omit_nulls_def omit_null_def)
  note inst = null_like_omitted [of ?k ?b ?env ?db ?old ?u "'' ''"]
  have 1: "handle (PUT_todo ?k (omit_nulls ?b)) ?env ?db = handle (PUT_todo ?k ?b) ?env ?db"
    using inst by blast
  have 2: "\<exists>e. handle (PUT_todo ?k (?b\<lparr>body_title := Val '' ''\<rparr>)) ?env ?db =
             (Response 422 (ValidationErrors e), ?db)"
    using inst w by blast
  show ?thesis
    using h v w' 1 2 unfolding o by simp
qed

text \<open>
  C1. For every store and every combination of optional status and priority filters,
  \<open>GET /todos\<close> either rejects the priority filter (when it lies outside 1..5, the
  range the query parameter admits) or \<open>get_all\<close> returns exactly the records that match
  all supplied filters, each once, ordered by priority descending and, at equal
  priority, by creation time ascending; records that agree in both keep their order of
  insertion.
\<close>

theorem get_all_filtered_sorted:
  assumes "store_inv db"
  shows "case priority_query priority_filter of
           Inl e \<Rightarrow>
             handle (GET_todos status_filter priority_filter) env db =
               (Response 422 (ValidationErrors e), db)
         | Inr p \<Rightarrow>
             p = priority_filter \<and>
             (\<exists>rs. get_all db status_filter p = Inr rs \<and>
                mset rs = mset (filter (matches status_filter p) (map snd db)) \<and>
                sorted_wrt listed_before rs \<and>
                (\<forall>q c. filter (\<lambda>t. priority t = q \<and> created_at t = c) rs =
                       filter (\<lambda>t. priority t = q \<and> created_at t = c)
                         (filter (matches status_filter p) (map snd db))) \<and>
                get_todos db status_filter p = Response 200 (Todos rs) \<and>
                handle (GET_todos status_filter priority_filter) env db =
                  (Response 200 (Todos rs), db))"
proof (cases "priority_query priority_filter")
  case (Inl e)
  then show ?thesis by simp
next
  case (Inr p)
  then have p: "p = priority_filter" and z: "p \<noteq> Some 0"
    by (auto simp: priority_query_Inr)
  let ?ms = "filter (matches status_filter p) (map snd db)"
  let ?rs = "sort_key (\<lambda>x. (- priority x, created_at x)) ?ms"
  have g: "get_all db status_filter p = Inr ?rs"
    using assms z by (rule get_all_eq)
  have m: "mset ?rs = mset ?ms" by simp
  have s: "sorted_wrt listed_before ?rs" by (rule sorted_listed_before)
  have t: "\<forall>q c. filter (\<lambda>t. priority t = q \<and> created_at t = c) ?rs =
                  filter (\<lambda>t. priority t = q \<and> created_at t = c) ?ms"
    by (simp only: stable_listing) simp
  have r: "get_todos db status_filter p = Response 200 (Todos ?rs)"
    by (simp add: get_todos_def g)
  have h: "handle (GET_todos status_filter priority_filter) env db =
             (Response 200 (Todos ?rs), db)"
    using Inr r by simp
  have "\<exists>rs. get_all db status_filter p = Inr rs \<and>
                mset rs = mset ?ms \<and> sorted_wrt listed_before rs \<and>
                (\<forall>q c. filter (\<lambda>t. priority t = q \<and> created_at t = c) rs =
                       filter (\<lambda>t. priority t = q \<and> created_at t = c) ?ms) \<and>
                get_todos db status_filter p = Response 200 (Todos rs) \<and>
                handle (GET_todos status_filter priority_filter) env db =
                  (Response 200 (Todos rs), db)"
    using g m s t r h by (intro exI [of _ ?rs] conjI)
  with p show ?thesis by (simp only: Inr sum.case)
qed

text \<open>
  Records created with the priorities 3, 5 and 1, in this order, are listed in the order
  5, 3, 1; with the priority filter 5 only the second is listed.
\<close>

theorem get_all_filtered_sorted_witness:
  "store_inv [(''todo-00000001'',
       \<lparr>title = ''TODO'', description = None, status = PENDING, priority = 3,
        id_field = ''todo-00000001'', created_at = 1000, updated_at = 1000\<rparr>),
    (''todo-00000002'',
       \<lparr>title = ''TODO'', description = None, status = PENDING, priority = 5,
        id_field = ''todo-00000002'', created_at = 2000, updated_at = 2000\<rparr>),
    (''todo-00000003'',
       \<lparr>title = ''TODO'', description = None, status = PENDING, priority = 1,
        id_field = ''todo-00000003'', created_at = 3000, updated_at = 3000\<rparr>)] \<and>
   priority_query None = Inr None \<and>
   (\<exists>rs. get_all [(''todo-00000001'',
       \<lparr>title = ''TODO'', description = None, status = PENDING, priority = 3,
        id_field = ''todo-00000001'', created_at = 1000, updated_at = 1000\<rparr>),
    (''todo-00000002'',
       \<lparr>title = ''TODO'', description = None, status = PENDING, priority = 5,
        id_field = ''todo-00000002'', created_at = 2000, updated_at = 2000\<rparr>),
    (''todo-00000003'',
       \<lparr>title = ''TODO'', description = None, status = PENDING, priority = 1,
        id_field = ''todo-00000003'', created_at = 3000, updated_at = 3000\<rparr>)] None None = Inr rs \<and>
     map priority rs = [5, 3, 1] \<and> sorted_wrt listed_before rs) \<and>
   priority_query (Some 5) = Inr (Some 5) \<and>
   (\<exists>rs. get_all [(''todo-00000001'',
       \<lparr>title = ''TODO'', description = None, status = PENDING, priority = 3,
        id_field = ''todo-00000001'', created_at = 1000, updated_at = 1000\<rparr>),
    (''todo-00000002'',
       \<lparr>title = ''TODO'', description = None, status = PENDING, priority = 5,
        id_field = ''todo-00000002'', created_at = 2000, updated_at = 2000\<rparr>),
    (''todo-00000003'',
       \<lparr>title = ''TODO'', description = None, status = PENDING, priority = 1,
        id_field = ''todo-00000003'', created_at = 3000, updated_at = 3000\<rparr>)] (Some PENDING) (Some 5) =
       Inr rs \<and>
     map id_field rs = [''todo-00000002''] \<and> sorted_wrt listed_before rs)"
proof -
  let ?db = "[(''todo-00000001'',
       \<lparr>title = ''TODO'', description = None, status = PENDING, priority = 3,
        id_field = ''todo-00000001'', created_at = 1000, updated_at = 1000\<rparr>),
    (''todo-00000002'',
       \<lparr>title = ''TODO'', description = None, status = PENDING, priority = 5,
        id_field = ''todo-00000002'', created_at = 2000, updated_at = 2000\<rparr>),
    (''todo-00000003'',
       \<lparr>title = ''TODO'', description = None, status = PENDING, priority = 1,
        id_field = ''todo-00000003'', created_at = 3000, updated_at = 3000\<rparr>)]"
  let ?env = "\<lparr>uuid4_hex = ''00000004aaaa'', clock = 4000\<rparr>"
  have i: "store_inv ?db"
    by (simp add: store_inv_def valid_fields_def valid_title_def valid_description_def
          strip_def lstrip_def rstrip_def isspace_def)
  have n: "priority_query None = Inr None" by (simp add: priority_query_def)
  have f: "priority_query (Some 5) = Inr (Some 5)"
    by (simp add: priority_query_def int_constraints_def)
  from get_all_filtered_sorted
    [OF i, where priority_filter = None and status_filter = None and env = ?env]
  obtain rs where
    g: "get_all ?db None None = Inr rs" and s: "sorted_wrt listed_before rs"
    unfolding n sum.case by blast
  have e: "get_all ?db None None =
     Inr [\<lparr>title = ''TODO'', description = None, status = PENDING, priority = 5,
        id_field = ''todo-00000002'', created_at = 2000, updated_at = 2000\<rparr>,
       \<lparr>title = ''TODO'', description = None, status = PENDING, priority = 3,
        id_field = ''todo-00000001'', created_at = 1000, updated_at = 1000\<rparr>,
       \<lparr>title = ''TODO'', description = None, status = PENDING, priority = 1,
        id_field = ''todo-00000003'', created_at = 3000, updated_at = 3000\<rparr>]"
    by (simp add: get_all_def validate_example)
  have m: "map priority rs = [5, 3, 1]" using g unfolding e by auto
  have 1: "\<exists>rs. get_all ?db None None = Inr rs \<and> map priority rs = [5, 3, 1] \<and>
          sorted_wrt listed_before rs"
    using g m s by (intro exI [of _ rs] conjI)
  from get_all_filtered_sorted
    [OF i, where priority_filter = "Some 5" and status_filter = "Some PENDING" and env = ?env]
  obtain rs' where
    g': "get_all ?db (Some PENDING) (Some 5) = Inr rs'" and s': "sorted_wrt listed_before rs'"
    unfolding f sum.case by blast
  have e': "get_all ?db (Some PENDING) (Some 5) =
     Inr [\<lparr>title = ''TODO'', description = None, status = PENDING, priority = 5,
        id_field = ''todo-00000002'', created_at = 2000, updated_at = 2000\<rparr>]"
    by (simp add: get_all_def validate_example)
  have m': "map id_field rs' = [''todo-00000002'']" using g' unfolding e' by auto
  have 2: "\<exists>rs. get_all ?db (Some PENDING) (Some 5) = Inr rs \<and>
          map id_field rs = [''todo-00000002''] \<and> sorted_wrt listed_before rs"
    using g' m' s' by (intro exI [of _ rs'] conjI)
  from i n 1 f 2 show ?thesis by (intro conjI)
qed

text \<open>
  C8. The statistics summary reports the number of records as \<open>total\<close>, under
  \<open>by_status\<close> the three keys \<open>pending\<close>, \<open>in_progress\<close> and \<open>completed\<close> with the number
  of records of each status, and under \<open>by_priority\<close> the five keys \<open>1\<close> to \<open>5\<close> with the
  number of records of each priority, a key without records having the count 0.
\<close>

theorem stats_summary:
  assumes "store_inv db"
  shows "get_stats db =
     Response 200 (Stats
       \<lparr>total = count db,
        by_status =
          [(''pending'', length (filter (\<lambda>t. status t = PENDING) (map snd db))),
           (''in_progress'', length (filter (\<lambda>t. status t = IN_PROGRESS) (map snd db))),
           (''completed'', length (filter (\<lambda>t. status t = COMPLETED) (map snd db)))],
        by_priority =
          [(''1'', length (filter (\<lambda>t. priority t = 1) (map snd db))),
           (''2'', length (filter (\<lambda>t. priority t = 2) (map snd db))),
           (''3'', length (filter (\<lambda>t. priority t = 3) (map snd db))),
           (''4'', length (filter (\<lambda>t. priority t = 4) (map snd db))),
           (''5'', length (filter (\<lambda>t. priority t = 5) (map snd db)))]\<rparr>)"
  using assms by (rule get_stats_eq)

text \<open>
  Four records created with the statuses pending, in_progress, completed, pending and
  the priorities 1, 3, 5, 1.
\<close>

theorem stats_summary_witness:
  "store_inv (run
       [(POST_todos \<lparr>body_title = Val ''TODO'', body_description = Unset,
           body_status = Val PENDING, body_priority = Val 1\<rparr>,
         \<lparr>uuid4_hex = ''00000001aaaa'', clock = 1000\<rparr>),
        (POST_todos \<lparr>body_title = Val ''TODO'', body_description = Unset,
           body_status = Val IN_PROGRESS, body_priority = Val 3\<rparr>,
         \<lparr>uuid4_hex = ''00000002aaaa'', clock = 2000\<rparr>),
        (POST_todos \<lparr>body_title = Val ''TODO'', body_description = Unset,
           body_status = Val COMPLETED, body_priority = Val 5\<rparr>,
         \<lparr>uuid4_hex = ''00000003aaaa'', clock = 3000\<rparr>),
        (POST_todos \<lparr>body_title = Val ''TODO'', body_description = Unset,
           body_status = Val PENDING, body_priority = Val 1\<rparr>,
         \<lparr>uuid4_hex = ''00000004aaaa'', clock = 4000\<rparr>)] init) \<and>
   get_stats (run
       [(POST_todos \<lparr>body_title = Val ''TODO'', body_description = Unset,
           body_status = Val PENDING, body_priority = Val 1\<rparr>,
         \<lparr>uuid4_hex = ''00000001aaaa'', clock = 1000\<rparr>),
        (POST_todos \<lparr>body_title = Val ''TODO'', body_description = Unset,
           body_status = Val IN_PROGRESS, body_priority = Val 3\<rparr>,
         \<lparr>uuid4_hex = ''00000002aaaa'', clock = 2000\<rparr>),
        (POST_todos \<lparr>body_title = Val ''TODO'', body_description = Unset,
           body_status = Val COMPLETED, body_priority = Val 5\<rparr>,
         \<lparr>uuid4_hex = ''00000003aaaa'', clock = 3000\<rparr>),
        (POST_todos \<lparr>body_title = Val ''TODO'', body_description = Unset,
           body_status = Val PENDING, body_priority = Val 1\<rparr>,
         \<lparr>uuid4_hex = ''00000004aaaa'', clock = 4000\<rparr>)] init) =
     Response 200 (Stats
       \<lparr>total = 4,
        by_status = [(''pending'', 2), (''in_progress'', 1), (''completed'', 1)],
        by_priority = [(''1'', 2), (''2'', 0), (''3'', 1), (''4'', 0), (''5'', 1)]\<rparr>)"
proof -
  let ?db = "[(''todo-00000001'',
       \<lparr>title = ''TODO'', description = None, status = PENDING, priority = 1,
        id_field = ''todo-00000001'', created_at = 1000, updated_at = 1000\<rparr>),
    (''todo-00000002'',
       \<lparr>title = ''TODO'', description = None, status = IN_PROGRESS, priority = 3,
        id_field = ''todo-00000002'', created_at = 2000, updated_at = 2000\<rparr>),
    (''todo-00000003'',
       \<lparr>title = ''TODO'', description = None, status = COMPLETED, priority = 5,
        id_field = ''todo-00000003'', created_at = 3000, updated_at = 3000\<rparr>),
    (''todo-00000004'',
       \<lparr>title = ''TODO'', description = None, status = PENDING, priority = 1,
        id_field = ''todo-00000004'', created_at = 4000, updated_at = 4000\<rparr>)]"
  have i: "store_inv ?db"
    by (simp add: store_inv_def valid_fields_def valid_title_def valid_description_def
          strip_def lstrip_def rstrip_def isspace_def)
  have "get_stats ?db =
     Response 200 (Stats
       \<lparr>total = 4,
        by_status = [(''pending'', 2), (''in_progress'', 1), (''completed'', 1)],
        by_priority = [(''1'', 2), (''2'', 0), (''3'', 1), (''4'', 0), (''5'', 1)]\<rparr>)"
    using stats_summary [OF i] by (simp add: count_def)
  with i show ?thesis unfolding four_creates by (intro conjI)
qed

text \<open>
  C10. The sizes agree: \<open>count\<close>, which \<open>/health\<close> reports, is the length of the
  unfiltered listing and the \<open>total\<close> of the statistics, and both the three status
  counts and the five priority counts add up to \<open>total\<close>.
\<close>

theorem sizes_agree:
  assumes "store_inv db"
  shows "\<exists>rs st. get_all db None None = Inr rs \<and> length rs = count db \<and>
           health_check db = Response 200 (Health ''healthy'' (count db)) \<and>
           get_stats db = Response 200 (Stats st) \<and> total st = count db \<and>
           map fst (by_status st) = [''pending'', ''in_progress'', ''completed''] \<and>
           sum_list (map snd (by_status st)) = total st \<and>
           map fst (by_priority st) = [''1'', ''2'', ''3'', ''4'', ''5''] \<and>
           sum_list (map snd (by_priority st)) = total st"
proof -
  let ?rs = "sort_key (\<lambda>x. (- priority x, created_at x)) (map snd db)"
  let ?st = "\<lparr>total = count db,
        by_status =
          [(''pending'', length (filter (\<lambda>t. status t = PENDING) (map snd db))),
           (''in_progress'', length (filter (\<lambda>t. status t = IN_PROGRESS) (map snd db))),
           (''completed'', length (filter (\<lambda>t. status t = COMPLETED) (map snd db)))],
        by_priority =
          [(''1'', length (filter (\<lambda>t. priority t = 1) (map snd db))),
           (''2'', length (filter (\<lambda>t. priority t = 2) (map snd db))),
           (''3'', length (filter (\<lambda>t. priority t = 3) (map snd db))),
           (''4'', length (filter (\<lambda>t. priority t = 4) (map snd db))),
           (''5'', length (filter (\<lambda>t. priority t = 5) (map snd db)))]\<rparr>"
  have g: "get_all db None None = Inr ?rs" using assms by (rule get_all_unfiltered)
  have l: "length ?rs = count db" by (simp add: count_def)
  have h: "health_check db = Response 200 (Health ''healthy'' (count db))"
    by (simp add: health_check_def)
  have s: "get_stats db = Response 200 (Stats ?st)" using assms by (rule get_stats_eq)
  have t: "total ?st = count db" by simp
  have ks: "map fst (by_status ?st) = [''pending'', ''in_progress'', ''completed'']" by simp
  have ss: "sum_list (map snd (by_status ?st)) = total ?st"
    using status_partition [of "map snd db"] by (simp add: count_def)
  have kp: "map fst (by_priority ?st) = [''1'', ''2'', ''3'', ''4'', ''5'']" by simp
  have sp: "sum_list (map snd (by_priority ?st)) = total ?st"
    using priority_partition [OF store_inv_priorities [OF assms]] by (simp add: count_def)
  show ?thesis
    using g l h s t ks ss kp sp
    by (intro exI [of _ ?rs] exI [of _ ?st] conjI)
qed

theorem sizes_agree_witness:
  "store_inv [(''todo-00000001'',
       \<lparr>title = ''TODO'', description = None, status = PENDING, priority = 1,
        id_field = ''todo-00000001'', created_at = 1000, updated_at = 1000\<rparr>),
    (''todo-00000002'',
       \<lparr>title = ''TODO'', description = None, status = IN_PROGRESS, priority = 3,
        id_field = ''todo-00000002'', created_at = 2000, updated_at = 2000\<rparr>)] \<and>
   (\<exists>rs st. get_all [(''todo-00000001'',
       \<lparr>title = ''TODO'', description = None, status = PENDING, priority = 1,
        id_field = ''todo-00000001'', created_at = 1000, updated_at = 1000\<rparr>),
    (''todo-00000002'',
       \<lparr>title = ''TODO'', description = None, status = IN_PROGRESS, priority = 3,
        id_field = ''todo-00000002'', created_at = 2000, updated_at = 2000\<rparr>)] None None = Inr rs \<and>
      length rs = 2 \<and>
      get_stats [(''todo-00000001'',
       \<lparr>title = ''TODO'', description = None, status = PENDING, priority = 1,
        id_field = ''todo-00000001'', created_at = 1000, updated_at = 1000\<rparr>),
    (''todo-00000002'',
       \<lparr>title = ''TODO'', description = None, status = IN_PROGRESS, priority = 3,
        id_field = ''todo-00000002'', created_at = 2000, updated_at = 2000\<rparr>)] =
        Response 200 (Stats st) \<and>
      total st = 2 \<and> sum_list (map snd (by_status st)) = 2 \<and>
      sum_list (map snd (by_priority st)) = 2)"
proof -
  let ?db = "[(''todo-00000001'',
       \<lparr>title = ''TODO'', description = None, status = PENDING, priority = 1,
        id_field = ''todo-00000001'', created_at = 1000, updated_at = 1000\<rparr>),
    (''todo-00000002'',
       \<lparr>title = ''TODO'', description = None, status = IN_PROGRESS, priority = 3,
        id_field = ''todo-00000002'', created_at = 2000, updated_at = 2000\<rparr>)]"
  have i: "store_inv ?db"
    by (simp add: store_inv_def valid_fields_def valid_title_def valid_description_def
          strip_def lstrip_def rstrip_def isspace_def)
  have c: "count ?db = 2" by (simp add: count_def)
  from sizes_agree [OF i] obtain rs st where
    "get_all ?db None None = Inr rs" "length rs = count ?db"
    "get_stats ?db = Response 200 (Stats st)" "total st = count ?db"
    "sum_list (map snd (by_status st)) = total st"
    "sum_list (map snd (by_priority st)) = total st"
    by blast
  then have "get_all ?db None None = Inr rs \<and> length rs = 2 \<and>
      get_stats ?db = Response 200 (Stats st) \<and>
      total st = 2 \<and> sum_list (map snd (by_status st)) = 2 \<and>
      sum_list (map snd (by_priority st)) = 2"
    unfolding c by simp
  then have "\<exists>rs st. get_all ?db None None = Inr rs \<and> length rs = 2 \<and>
      get_stats ?db = Response 200 (Stats st) \<and>
      total st = 2 \<and> sum_list (map snd (by_status st)) = 2 \<and>
      sum_list (map snd (by_priority st)) = 2"
    by (intro exI)
  with i show ?thesis by (intro conjI)
qed

text \<open>
  C9, as the specification states it, fails for the timestamps: they are readings of
  the wall clock, and when the clock reads less at an update than it did at the
  creation, the record has \<open>updated_at\<close> before \<open>created_at\<close>.
\<close>

theorem clock_set_back_counterexample:
  "map (\<lambda>(k, d). created_at d \<le> updated_at d)
     (run [(POST_todos \<lparr>body_title = Val ''TODO'', body_description = Unset,
                body_status = Unset, body_priority = Val 1\<rparr>,
            \<lparr>uuid4_hex = ''00000001aaaa'', clock = 2000\<rparr>),
           (PUT_todo ''todo-00000001'' \<lparr>body_title = Unset, body_description = Unset,
                body_status = Unset, body_priority = Val 2\<rparr>,
            \<lparr>uuid4_hex = ''00000002aaaa'', clock = 1000\<rparr>)] init) = [False]"
  unfolding create_then_update_run by simp

text \<open>
  C9, amended. After every sequence of requests, starting from the empty store, every
  stored record has a title that is neither empty nor whitespace only and a priority
  from 1 to 5; and when the clock readings of the requests never decrease, every stored
  record has \<open>created_at \<le> updated_at\<close>.
\<close>

theorem live_records_invariant:
  "(\<forall>(k, d) \<in> set (run reqs init).
      title d \<noteq> [] \<and> \<not> (\<forall>c\<in>set (title d). isspace c) \<and> 1 \<le> priority d \<and> priority d \<le> 5) \<and>
   (sorted (map (\<lambda>(req, env). clock env) reqs) \<longrightarrow>
      (\<forall>(k, d) \<in> set (run reqs init). created_at d \<le> updated_at d))"
proof -
  have i: "store_inv (run reqs init)"
    using store_inv_init by (rule store_inv_run)
  have A: "\<forall>(k, d) \<in> set (run reqs init).
      title d \<noteq> [] \<and> \<not> (\<forall>c\<in>set (title d). isspace c) \<and> 1 \<le> priority d \<and> priority d \<le> 5"
  proof (intro ballI, clarify)
    fix k d assume "(k, d) \<in> set (run reqs init)"
    with i have v: "valid_fields d" by (auto simp: store_inv_def list_all_iff)
    then have "valid_title (title d)" "1 \<le> priority d" "priority d \<le> 5"
      by (simp_all add: valid_fields_def)
    with valid_title_not_blank [of "title d"]
    show "title d \<noteq> [] \<and> \<not> (\<forall>c\<in>set (title d). isspace c) \<and> 1 \<le> priority d \<and> priority d \<le> 5"
      by blast
  qed
  have B: "\<forall>(k, d) \<in> set (run reqs init). created_at d \<le> updated_at d"
    if "sorted (map (\<lambda>(req, env). clock env) reqs)"
    using stamps_run_init [OF that] by (simp add: list_all_iff)
  from A B show ?thesis by blast
qed

text \<open>A record is created at the clock reading 1000 and updated at the reading 2000.\<close>

theorem live_records_invariant_witness:
  "sorted (map (\<lambda>(req, env). clock env)
     [(POST_todos \<lparr>body_title = Val ''TODO'', body_description = Unset,
                body_status = Unset, body_priority = Val 1\<rparr>,
            \<lparr>uuid4_hex = ''00000001aaaa'', clock = 1000\<rparr>),
           (PUT_todo ''todo-00000001'' \<lparr>body_title = Unset, body_description = Unset,
                body_status = Unset, body_priority = Val 2\<rparr>,
            \<lparr>uuid4_hex = ''00000002aaaa'', clock = 2000\<rparr>)]) \<and>
   (''todo-00000001'',
       \<lparr>title = ''TODO'', description = None, status = PENDING, priority = 2,
        id_field = ''todo-00000001'', created_at = 1000, updated_at = 2000\<rparr>)
     \<in> set (run [(POST_todos \<lparr>body_title = Val ''TODO'', body_description = Unset,
                body_status = Unset, body_priority = Val 1\<rparr>,
            \<lparr>uuid4_hex = ''00000001aaaa'', clock = 1000\<rparr>),
           (PUT_todo ''todo-00000001'' \<lparr>body_title = Unset, body_description = Unset,
                body_status = Unset, body_priority = Val 2\<rparr>,
            \<lparr>uuid4_hex = ''00000002aaaa'', clock = 2000\<rparr>)] init) \<and>
   list_all (\<lambda>(k, d).
       title d \<noteq> [] \<and> 1 \<le> priority d \<and> priority d \<le> 5 \<and> created_at d \<le> updated_at d)
     (run [(POST_todos \<lparr>body_title = Val ''TODO'', body_description = Unset,
                body_status = Unset, body_priority = Val 1\<rparr>,
            \<lparr>uuid4_hex = ''00000001aaaa'', clock = 1000\<rparr>),
           (PUT_todo ''todo-00000001'' \<lparr>body_title = Unset, body_description = Unset,
                body_status = Unset, body_priority = Val 2\<rparr>,
            \<lparr>uuid4_hex = ''00000002aaaa'', clock = 2000\<rparr>)] init)"
proof -
  let ?reqs = "[(POST_todos \<lparr>body_title = Val ''TODO'', body_description = Unset,
                body_status = Unset, body_priority = Val 1\<rparr>,
            \<lparr>uuid4_hex = ''00000001aaaa'', clock = 1000\<rparr>),
           (PUT_todo ''todo-00000001'' \<lparr>body_title = Unset, body_description = Unset,
                body_status = Unset, body_priority = Val 2\<rparr>,
            \<lparr>uuid4_hex = ''00000002aaaa'', clock = 2000\<rparr>)]"
  have s: "sorted (map (\<lambda>(req, env). clock env) ?reqs)" by simp
  have m: "(''todo-00000001'',
       \<lparr>title = ''TODO'', description = None, status = PENDING, priority = 2,
        id_field = ''todo-00000001'', created_at = 1000, updated_at = 2000\<rparr>)
     \<in> set (run ?reqs init)"
    unfolding create_then_update_run by simp
  have "\<forall>(k, d) \<in> set (run ?reqs init).
      title d \<noteq> [] \<and> 1 \<le> priority d \<and> priority d \<le> 5 \<and> created_at d \<le> updated_at d"
    using live_records_invariant [of ?reqs] s by fast
  then have "list_all (\<lambda>(k, d).
       title d \<noteq> [] \<and> 1 \<le> priority d \<and> priority d \<le> 5 \<and> created_at d \<le> updated_at d)
     (run ?reqs init)"
    by (simp only: list_all_iff)
  with s m show ?thesis by (intro conjI)
qed

text \<open>
  C5 fails when two identifiers collide. \<open>_generate_id\<close> keeps the first eight
  hexadecimal digits of a random UUID and \<open>create\<close> stores the record under that key
  without looking it up: a second \<open>create\<close> whose UUID starts with the same eight digits
  replaces the first record, and the count stays 1.
\<close>

theorem create_id_collision:
  "generate_id ''deadbeef000040008000000000000001'' =
     generate_id ''deadbeef111140008000000000000002'' \<and>
   count (fst (create init ''deadbeef000040008000000000000001'' 1000
      \<lparr>title = ''First'', description = None, status = PENDING, priority = 1\<rparr>)) = 1 \<and>
   fst (create
     (fst (create init ''deadbeef000040008000000000000001'' 1000
        \<lparr>title = ''First'', description = None, status = PENDING, priority = 1\<rparr>))
     ''deadbeef111140008000000000000002'' 2000
     \<lparr>title = ''Second'', description = None, status = PENDING, priority = 1\<rparr>) =
   [(''todo-deadbeef'',
     \<lparr>title = ''Second'', description = None, status = PENDING, priority = 1,
      id_field = ''todo-deadbeef'', created_at = 2000, updated_at = 2000\<rparr>)] \<and>
   count (fst (create
     (fst (create init ''deadbeef000040008000000000000001'' 1000
        \<lparr>title = ''First'', description = None, status = PENDING, priority = 1\<rparr>))
     ''deadbeef111140008000000000000002'' 2000
     \<lparr>title = ''Second'', description = None, status = PENDING, priority = 1\<rparr>)) = 1"
  by (simp add: create_def generate_id_def Let_def init_def count_def)

end
